theory Spec2Isabelle
  imports Complex_Main
begin

section \<open>Python values\<close>

text \<open>
  The provider's JSON, the tools' arguments and the tools' results are Python values built
  from \<^verbatim>\<open>None\<close>, booleans, numbers, strings, lists and dicts. A dict keeps its
  insertion order, so it is an association list. A Python float is idealised as an exact
  rational.
\<close>

datatype json =
    JNull
  | JBool bool
  | JInt int
  | JReal rat
  | JStr string
  | JArr "json list"
  | JObj "(string \<times> json) list"

type_synonym pydict = "(string \<times> json) list"

text \<open>\<^verbatim>\<open>d[k] = v\<close>: an existing key keeps its place, a new key goes last.\<close>

fun dict_set :: "pydict \<Rightarrow> string \<Rightarrow> json \<Rightarrow> pydict" where
  "dict_set [] k v = [(k, v)]"
| "dict_set ((k', v') # d) k v = (if k' = k then (k, v) # d else (k', v') # dict_set d k v)"

text \<open>\<^verbatim>\<open>d.get(k)\<close> is \<open>map_of d k\<close>; \<^verbatim>\<open>d.keys()\<close>:\<close>

definition keys :: "pydict \<Rightarrow> string list" where
  "keys d = map fst d"

text \<open>Truth value testing (\<^verbatim>\<open>if x:\<close>, \<^verbatim>\<open>not x\<close>, \<^verbatim>\<open>x or y\<close>).\<close>

fun truthy :: "json \<Rightarrow> bool" where
  "truthy JNull = False"
| "truthy (JBool b) = b"
| "truthy (JInt n) = (n \<noteq> 0)"
| "truthy (JReal q) = (q \<noteq> 0)"
| "truthy (JStr s) = (s \<noteq> [])"
| "truthy (JArr xs) = (xs \<noteq> [])"
| "truthy (JObj kvs) = (kvs \<noteq> [])"

section \<open>HTTP responses and exceptions\<close>

text \<open>
  What the code reads of an \<^verbatim>\<open>httpx.Response\<close>: the status code, the headers and the
  outcome of \<^verbatim>\<open>resp.json()\<close> (\<open>None\<close> when the body is not JSON and the call raises).
  Header names are the ones \<^verbatim>\<open>headers.get\<close> is asked for.
\<close>

record http_response =
  status_code :: int
  headers :: "(string \<times> string) list"
  body :: "json option"

text \<open>
  Every raise of the source is a value. The first four are the transport errors that
  \<^verbatim>\<open>_get\<close> retries; \<open>OtherException\<close> stands for any other exception of the HTTP
  library (a connect or pool timeout, for instance).
\<close>

datatype exn =
    ConnectError
  | ReadTimeout
  | WriteError
  | RemoteProtocolError
  | OtherException string
  | HTTPStatusError http_response
  | JSONDecodeError
  | RuntimeError string
  | ValueError string
  | KeyError string
  | IndexError
  | TypeError
  | AttributeError string

text \<open>
  \<^verbatim>\<open>resp.raise_for_status()\<close> of httpx: returns on a 2xx status and raises
  \<^verbatim>\<open>HTTPStatusError\<close>, built from the response, on any other.
\<close>

definition is_success :: "http_response \<Rightarrow> bool" where
  "is_success resp = (200 \<le> status_code resp \<and> status_code resp \<le> 299)"

definition raise_for_status :: "http_response \<Rightarrow> exn + http_response" where
  "raise_for_status resp = (if is_success resp then Inr resp else Inl (HTTPStatusError resp))"

definition resp_json :: "http_response \<Rightarrow> exn + json" where
  "resp_json resp = (case body resp of None \<Rightarrow> Inl JSONDecodeError | Some j \<Rightarrow> Inr j)"

section \<open>Settings\<close>

text \<open>The fields of \<^verbatim>\<open>Settings\<close> that the clients and tools read.\<close>

record settings =
  default_lang :: string
  weather_api_key :: "string option"

section \<open>The OpenWeather client (clients/openWeatherAPI.py)\<close>

record client =
  api_key :: string
  base_url :: string
  max_retries :: int
  backoff_factor :: rat

definition rstrip :: "char \<Rightarrow> string \<Rightarrow> string" where
  "rstrip ch s = rev (dropWhile (\<lambda>c. c = ch) (rev s))"

text \<open>
  \<^verbatim>\<open>OpenWeatherClient.__init__\<close>: the key is the argument, or the one of the settings
  when the argument is \<^verbatim>\<open>None\<close> or empty; a missing key raises. The timeout only
  configures the HTTP library.
\<close>

definition OpenWeatherClient_init ::
  "settings \<Rightarrow> string option \<Rightarrow> string \<Rightarrow> int \<Rightarrow> rat \<Rightarrow> exn + client" where
  "OpenWeatherClient_init st key url retries factor =
     (let k = (case key of
                 Some a \<Rightarrow> if a \<noteq> [] then Some a else weather_api_key st
               | None \<Rightarrow> weather_api_key st)
      in case k of
           None \<Rightarrow> Inl (ValueError ''OpenWeather API key not configured (weather_api_key).'')
         | Some a \<Rightarrow>
             if a = [] then Inl (ValueError ''OpenWeather API key not configured (weather_api_key).'')
             else Inr \<lparr>api_key = a, base_url = rstrip CHR ''/'' url,
                       max_retries = max 1 retries, backoff_factor = factor\<rparr>)"

text \<open>\<^verbatim>\<open>OpenWeatherClient()\<close> with the default arguments.\<close>

definition OpenWeatherClient :: "settings \<Rightarrow> exn + client" where
  "OpenWeatherClient st = OpenWeatherClient_init st None ''https://api.openweathermap.org'' 3 (1 / 2)"

subsection \<open>The delay before a retry\<close>

text \<open>\<^verbatim>\<open>2 ** e\<close> for an integer \<open>e\<close>: a negative exponent gives a fraction.\<close>

definition pow2 :: "int \<Rightarrow> rat" where
  "pow2 e = (if 0 \<le> e then 2 ^ nat e else 1 / 2 ^ nat (- e))"

text \<open>
  \<^verbatim>\<open>_compute_delay\<close>. The builtin \<^verbatim>\<open>float\<close> that parses the header is a
  parameter: \<open>None\<close> is its \<^verbatim>\<open>ValueError\<close>.
\<close>

definition compute_delay ::
  "client \<Rightarrow> (string \<Rightarrow> rat option) \<Rightarrow> int \<Rightarrow> http_response option \<Rightarrow> rat" where
  "compute_delay c float attempt resp =
     (let base = backoff_factor c * pow2 (attempt - 1)
      in case resp of
           None \<Rightarrow> base
         | Some r \<Rightarrow>
             if status_code r = 429 then
               (case map_of (headers r) ''Retry-After'' of
                  None \<Rightarrow> base
                | Some ra \<Rightarrow>
                    if ra \<noteq> [] then
                      (case float ra of Some seconds \<Rightarrow> max seconds base | None \<Rightarrow> base)
                    else base)
             else base)"

subsection \<open>GET with retries\<close>

text \<open>
  The network is a function of the attempt number (from 1), the path and the query
  parameters sent: it raises or answers. The result of a call records, beside what the
  call returns or raises, how many requests were sent and the delays slept between them.
\<close>

type_synonym transport = "nat \<Rightarrow> string \<Rightarrow> pydict \<Rightarrow> exn + http_response"

record get_result =
  outcome :: "exn + json"
  attempts :: nat
  sleeps :: "rat list"

definition retriable_status :: "http_response \<Rightarrow> bool" where
  "retriable_status resp =
     (status_code resp = 429 \<or> (500 \<le> status_code resp \<and> status_code resp < 600))"

definition retried_exception :: "exn \<Rightarrow> bool" where
  "retried_exception e =
     (e = ConnectError \<or> e = ReadTimeout \<or> e = WriteError \<or> e = RemoteProtocolError)"

text \<open>The end of the \<^verbatim>\<open>try\<close> body: raise for the status, else parse the body.\<close>

definition finish :: "http_response \<Rightarrow> exn + json" where
  "finish resp = (case raise_for_status resp of Inl e \<Rightarrow> Inl e | Inr r \<Rightarrow> resp_json r)"

text \<open>
  The \<^verbatim>\<open>while attempt < self.max_retries\<close> loop of \<^verbatim>\<open>_get\<close>; \<open>attempt\<close>,
  \<open>last_exc\<close> and the delays slept so far are the loop's state.
\<close>

function get_loop ::
  "client \<Rightarrow> (string \<Rightarrow> rat option) \<Rightarrow> transport \<Rightarrow> string \<Rightarrow> pydict \<Rightarrow>
   int \<Rightarrow> exn option \<Rightarrow> rat list \<Rightarrow> get_result" where
  "get_loop c float net path qp attempt last_exc slept =
     (if attempt < max_retries c then
        (case net (nat (attempt + 1)) path qp of
           Inr resp \<Rightarrow>
             if retriable_status resp \<and> attempt + 1 < max_retries c then
               get_loop c float net path qp (attempt + 1) last_exc
                 (slept @ [compute_delay c float (attempt + 1) (Some resp)])
             else \<lparr>outcome = finish resp, attempts = nat (attempt + 1), sleeps = slept\<rparr>
         | Inl e \<Rightarrow>
             if retried_exception e \<and> attempt + 1 < max_retries c then
               get_loop c float net path qp (attempt + 1) (Some e)
                 (slept @ [compute_delay c float (attempt + 1) None])
             else \<lparr>outcome = Inl e, attempts = nat (attempt + 1), sleeps = slept\<rparr>)
      else
        (case last_exc of
           Some e \<Rightarrow> \<lparr>outcome = Inl e, attempts = nat attempt, sleeps = slept\<rparr>
         | None \<Rightarrow>
             \<lparr>outcome = Inl (RuntimeError ''OpenWeather request failed without an exception.''),
              attempts = nat attempt, sleeps = slept\<rparr>))"
  by pat_completeness auto
termination
  by (relation "measure (\<lambda>(c, float, net, path, qp, attempt, last_exc, slept).
        nat (max_retries c - attempt))") auto

subsection \<open>The caller's parameters\<close>

text \<open>
  Python passes the \<^verbatim>\<open>params\<close> dict by reference, so the dicts live in a store:
  an address is an index, \<^verbatim>\<open>dict(d)\<close> and \<^verbatim>\<open>{}\<close> allocate a new cell, and
  \<^verbatim>\<open>d[k] = v\<close> updates the cell of \<open>d\<close>.
\<close>

type_synonym addr = nat
type_synonym store = "pydict list"

definition alloc :: "store \<Rightarrow> pydict \<Rightarrow> addr \<times> store" where
  "alloc s d = (length s, s @ [d])"

definition store_setitem :: "store \<Rightarrow> addr \<Rightarrow> string \<Rightarrow> json \<Rightarrow> store" where
  "store_setitem s a k v = s[a := dict_set (s ! a) k v]"

text \<open>
  \<^verbatim>\<open>qp = dict(params or {}); qp["appid"] = self.api_key\<close>, the first two statements
  of \<^verbatim>\<open>_get\<close>: the address of \<open>qp\<close> and the store after them. \<open>params\<close> is
  \<open>None\<close> or the address of the caller's dict.
\<close>

definition merge_appid :: "client \<Rightarrow> addr option \<Rightarrow> store \<Rightarrow> addr \<times> store" where
  "merge_appid c params s =
     (let (src, s1) = (case params of
                         None \<Rightarrow> alloc s []
                       | Some p \<Rightarrow> if s ! p = [] then alloc s [] else (p, s));
          (qp, s2) = alloc s1 (s1 ! src)
      in (qp, store_setitem s2 qp ''appid'' (JStr (api_key c))))"

text \<open>\<^verbatim>\<open>_get\<close>: the result of the call and the store it leaves.\<close>

definition client_get ::
  "client \<Rightarrow> (string \<Rightarrow> rat option) \<Rightarrow> transport \<Rightarrow> string \<Rightarrow> addr option \<Rightarrow> store \<Rightarrow>
   get_result \<times> store" where
  "client_get c float net path params s =
     (let (qp, s') = merge_appid c params s
      in (get_loop c float net path (s' ! qp) 0 None [], s'))"


text \<open>
  \<^verbatim>\<open>geocode_direct\<close> and \<^verbatim>\<open>current_weather\<close> build their parameters in a new dict
  and hand its address to \<^verbatim>\<open>_get\<close>. A language that is \<^verbatim>\<open>None\<close> or empty is left out.
\<close>

definition with_lang :: "string option \<Rightarrow> addr \<Rightarrow> store \<Rightarrow> store" where
  "with_lang lang params s =
     (case lang of
        None \<Rightarrow> s
      | Some l \<Rightarrow> if l \<noteq> [] then store_setitem s params ''lang'' (JStr l) else s)"

definition geocode_direct ::
  "client \<Rightarrow> (string \<Rightarrow> rat option) \<Rightarrow> transport \<Rightarrow> string \<Rightarrow> int \<Rightarrow> string option \<Rightarrow> store \<Rightarrow>
   get_result \<times> store" where
  "geocode_direct c float net q limit lang s =
     (let (params, s1) = alloc s [(''q'', JStr q), (''limit'', JInt limit)]
      in client_get c float net ''/geo/1.0/direct'' (Some params) (with_lang lang params s1))"

definition current_weather ::
  "client \<Rightarrow> (string \<Rightarrow> rat option) \<Rightarrow> transport \<Rightarrow> rat \<Rightarrow> rat \<Rightarrow> string \<Rightarrow> string option \<Rightarrow>
   store \<Rightarrow> get_result \<times> store" where
  "current_weather c float net lat lon units lang s =
     (let (params, s1) = alloc s [(''lat'', JReal lat), (''lon'', JReal lon), (''units'', JStr units)]
      in client_get c float net ''/data/2.5/weather'' (Some params) (with_lang lang params s1))"

section \<open>What the tools take from their surroundings\<close>

text \<open>
  A tool call reads the settings, talks to the network and uses builtins of Python:
  \<^verbatim>\<open>float\<close> on a header, \<^verbatim>\<open>str\<close> on an exception and on a value put into an
  f-string, the clock (\<^verbatim>\<open>datetime.utcnow()\<close>, in microseconds), the host's offset from
  UTC in seconds at a given epoch second (\<^verbatim>\<open>datetime.fromtimestamp\<close> gives local time)
  and \<^verbatim>\<open>isoformat\<close> of a naive datetime.
\<close>

record runtime =
  rt_settings :: settings
  rt_net :: transport
  py_float :: "string \<Rightarrow> rat option"
  exc_str :: "exn \<Rightarrow> string"
  py_str :: "json \<Rightarrow> string"
  utcnow :: int
  utcoffset :: "int \<Rightarrow> int"
  isoformat :: "int \<Rightarrow> string"

section \<open>Operations on Python values\<close>

definition bind_exn :: "exn + 'a \<Rightarrow> ('a \<Rightarrow> exn + 'b) \<Rightarrow> exn + 'b" where
  "bind_exn m f = (case m of Inl e \<Rightarrow> Inl e | Inr a \<Rightarrow> f a)"

text \<open>\<^verbatim>\<open>d.get(k, default)\<close> on a dict.\<close>

definition dict_get :: "pydict \<Rightarrow> string \<Rightarrow> json \<Rightarrow> json" where
  "dict_get d k dflt = (case map_of d k of None \<Rightarrow> dflt | Some v \<Rightarrow> v)"

text \<open>\<^verbatim>\<open>x.get(k, default)\<close> on any value: only a dict has the method.\<close>

fun attr_get :: "json \<Rightarrow> string \<Rightarrow> json \<Rightarrow> exn + json" where
  "attr_get (JObj d) k dflt = Inr (dict_get d k dflt)"
| "attr_get x k dflt = Inl (AttributeError ''get'')"

text \<open>\<^verbatim>\<open>x[0]\<close>.\<close>

fun getitem0 :: "json \<Rightarrow> exn + json" where
  "getitem0 (JArr []) = Inl IndexError"
| "getitem0 (JArr (x # xs)) = Inr x"
| "getitem0 (JStr []) = Inl IndexError"
| "getitem0 (JStr (c # cs)) = Inr (JStr [c])"
| "getitem0 (JObj d) = Inl (KeyError ''0'')"
| "getitem0 x = Inl TypeError"

text \<open>\<^verbatim>\<open>x["k"]\<close> with a string key.\<close>

fun getitem :: "json \<Rightarrow> string \<Rightarrow> exn + json" where
  "getitem (JObj d) k = (case map_of d k of None \<Rightarrow> Inl (KeyError k) | Some v \<Rightarrow> Inr v)"
| "getitem x k = Inl TypeError"

text \<open>A value inside an f-string: a string as it is, anything else through \<^verbatim>\<open>str\<close>.\<close>

definition format_value :: "runtime \<Rightarrow> json \<Rightarrow> string" where
  "format_value rt v = (case v of JStr s \<Rightarrow> s | _ \<Rightarrow> py_str rt v)"

text \<open>
  \<^verbatim>\<open>x += s\<close> for a string \<open>s\<close>: a string is extended, a list takes the characters
  of \<open>s\<close> as new elements, anything else raises.
\<close>

fun iadd_str :: "json \<Rightarrow> string \<Rightarrow> exn + json" where
  "iadd_str (JStr a) s = Inr (JStr (a @ s))"
| "iadd_str (JArr xs) s = Inr (JArr (xs @ map (\<lambda>c. JStr [c]) s))"
| "iadd_str x s = Inl TypeError"

text \<open>The quote character, and the degree sign as the two bytes of its UTF-8 encoding.\<close>

definition quote :: string where
  "quote = [CHR 0x27]"

definition degree :: string where
  "degree = [CHR 0xC2, CHR 0xB0]"

section \<open>The tools (tools/weather_tools.py)\<close>

subsection \<open>city_to_coords\<close>

text \<open>
  The tool has no \<^verbatim>\<open>try\<close>: an exception of the client's constructor, of the
  geocoding call or of the reads of the place leaves the tool.
\<close>

definition city_to_coords :: "runtime \<Rightarrow> string \<Rightarrow> exn + pydict" where
  "city_to_coords rt city =
     bind_exn (OpenWeatherClient (rt_settings rt)) (\<lambda>client.
     bind_exn (outcome (fst (geocode_direct client (py_float rt) (rt_net rt) city 1
                               (Some (default_lang (rt_settings rt))) []))) (\<lambda>results.
       if \<not> truthy results then
         Inr [(''error'', JStr (''Could not find coordinates for '' @ quote @ city @ quote)),
              (''lat'', JNull), (''lon'', JNull), (''normalized_name'', JNull)]
       else
         bind_exn (getitem0 results) (\<lambda>place.
         bind_exn (attr_get place ''name'' (JStr [])) (\<lambda>name0.
         bind_exn (attr_get place ''state'' JNull) (\<lambda>state.
         bind_exn (if truthy state then iadd_str name0 ('', '' @ format_value rt state)
                   else Inr name0) (\<lambda>name1.
         bind_exn (attr_get place ''country'' JNull) (\<lambda>country.
         bind_exn (if truthy country then iadd_str name1 ('', '' @ format_value rt country)
                   else Inr name1) (\<lambda>normalized_name.
         bind_exn (getitem place ''lat'') (\<lambda>lat.
         bind_exn (getitem place ''lon'') (\<lambda>lon.
           Inr [(''lat'', lat), (''lon'', lon), (''normalized_name'', normalized_name)]))))))))))"

subsection \<open>get_current_weather\<close>

definition temp_unit :: "string \<Rightarrow> string" where
  "temp_unit units =
     (if units = ''metric'' then degree @ ''C''
      else if units = ''imperial'' then degree @ ''F'' else ''K'')"

definition wind_unit :: "string \<Rightarrow> string" where
  "wind_unit units =
     (if units = ''metric'' then ''m/s'' else if units = ''imperial'' then ''mph'' else ''m/s'')"

text \<open>The body of the \<^verbatim>\<open>try\<close>.\<close>

definition current_weather_try :: "runtime \<Rightarrow> rat \<Rightarrow> rat \<Rightarrow> string \<Rightarrow> exn + pydict" where
  "current_weather_try rt lat lon units =
     bind_exn (OpenWeatherClient (rt_settings rt)) (\<lambda>client.
     bind_exn (outcome (fst (current_weather client (py_float rt) (rt_net rt) lat lon units
                               (Some (default_lang (rt_settings rt))) []))) (\<lambda>raw.
     bind_exn (attr_get raw ''main'' (JObj [])) (\<lambda>main.
     bind_exn (attr_get raw ''weather'' (JArr [JObj []])) (\<lambda>weathers.
     bind_exn (getitem0 weathers) (\<lambda>weather.
     bind_exn (attr_get raw ''wind'' (JObj [])) (\<lambda>wind.
     bind_exn (attr_get raw ''clouds'' (JObj [])) (\<lambda>clouds.
     bind_exn (attr_get main ''temp'' JNull) (\<lambda>temp.
     bind_exn (attr_get main ''feels_like'' JNull) (\<lambda>feels_like.
     bind_exn (attr_get weather ''main'' (JStr ''Unknown'')) (\<lambda>condition.
     bind_exn (attr_get weather ''description'' (JStr [])) (\<lambda>description.
     bind_exn (attr_get wind ''speed'' JNull) (\<lambda>wind_speed.
     bind_exn (attr_get wind ''deg'' JNull) (\<lambda>wind_deg.
     bind_exn (attr_get main ''humidity'' JNull) (\<lambda>humidity.
     bind_exn (attr_get clouds ''all'' JNull) (\<lambda>cloud_cover.
     bind_exn (attr_get main ''pressure'' JNull) (\<lambda>pressure.
     bind_exn (attr_get raw ''visibility'' JNull) (\<lambda>visibility.
       Inr [(''temp'', temp),
            (''temp_unit'', JStr (temp_unit units)),
            (''feels_like'', feels_like),
            (''condition'', condition),
            (''description'', description),
            (''wind_speed'', wind_speed),
            (''wind_unit'', JStr (wind_unit units)),
            (''wind_deg'', wind_deg),
            (''humidity'', humidity),
            (''clouds'', cloud_cover),
            (''pressure'', pressure),
            (''visibility'', visibility)])))))))))))))))))"

text \<open>The \<^verbatim>\<open>except Exception\<close> branch.\<close>

definition current_weather_except :: "runtime \<Rightarrow> exn \<Rightarrow> pydict" where
  "current_weather_except rt e =
     [(''error'', JStr (''Failed to fetch weather data: '' @ exc_str rt e)),
      (''temp'', JNull),
      (''feels_like'', JNull),
      (''condition'', JNull),
      (''description'', JNull),
      (''wind_speed'', JNull),
      (''humidity'', JNull),
      (''clouds'', JNull)]"

definition get_current_weather :: "runtime \<Rightarrow> rat \<Rightarrow> rat \<Rightarrow> string \<Rightarrow> pydict" where
  "get_current_weather rt lat lon units =
     (case current_weather_try rt lat lon units of
        Inr result \<Rightarrow> result
      | Inl e \<Rightarrow> current_weather_except rt e)"

section \<open>The forecast tool (tools/forecast_tools.py)\<close>

subsection \<open>Naive datetimes\<close>

text \<open>
  A naive \<^verbatim>\<open>datetime\<close> is its number of microseconds since 1970-01-01 00:00:00, a
  Thursday; \<^verbatim>\<open>timedelta\<close> arithmetic is addition. \<open>at_hour t h\<close> is
  \<^verbatim>\<open>t.replace(hour=h, minute=0, second=0, microsecond=0)\<close>, \<open>hour_of\<close> is
  \<^verbatim>\<open>t.hour\<close> and \<open>weekday\<close> counts from Monday, 0.
\<close>

definition hour_us :: int where
  "hour_us = 3600000000"

definition day_us :: int where
  "day_us = 24 * hour_us"

definition at_hour :: "int \<Rightarrow> int \<Rightarrow> int" where
  "at_hour t h = (t div day_us) * day_us + h * hour_us"

definition hour_of :: "int \<Rightarrow> int" where
  "hour_of t = (t mod day_us) div hour_us"

definition weekday :: "int \<Rightarrow> int" where
  "weekday t = (t div day_us + 3) mod 7"

text \<open>
  \<^verbatim>\<open>datetime.fromtimestamp(v)\<close>: the argument is a number (a boolean counts as one),
  a fraction is rounded to microseconds, half to even; the result is the local time of the
  host, and a year outside 1 to 9999 raises.
\<close>

definition round_half_even :: "rat \<Rightarrow> int" where
  "round_half_even q =
     (let f = \<lfloor>q\<rfloor>; d = q - of_int f
      in if d < 1 / 2 then f else if 1 / 2 < d then f + 1 else if even f then f else f + 1)"

fun timestamp_us :: "json \<Rightarrow> exn + int" where
  "timestamp_us (JInt n) = Inr (n * 1000000)"
| "timestamp_us (JBool b) = Inr (if b then 1000000 else 0)"
| "timestamp_us (JReal q) = Inr (round_half_even (q * 1000000))"
| "timestamp_us x = Inl TypeError"

definition min_datetime :: int where
  "min_datetime = - 62135596800000000"

definition max_datetime :: int where
  "max_datetime = 253402300799999999"

definition fromtimestamp :: "runtime \<Rightarrow> json \<Rightarrow> exn + int" where
  "fromtimestamp rt v =
     bind_exn (timestamp_us v) (\<lambda>us.
       let local = us + utcoffset rt (us div 1000000) * 1000000
       in if min_datetime \<le> local \<and> local \<le> max_datetime then Inr local
          else Inl (ValueError ''year is out of range''))"

subsection \<open>The window of a timeframe\<close>

text \<open>
  The condition of each list comprehension on the time \<open>t\<close> of an entry, by timeframe;
  the last branch serves \<^verbatim>\<open>next_3_days\<close> and every other value.
\<close>

definition in_window :: "runtime \<Rightarrow> string \<Rightarrow> int \<Rightarrow> bool" where
  "in_window rt timeframe t =
     (let now = utcnow rt
      in if timeframe = ''tonight'' then
           (let tonight_start = (if 18 \<le> hour_of now then now else at_hour now 18);
                tonight_end = at_hour (now + day_us) 6
            in tonight_start \<le> t \<and> t \<le> tonight_end)
         else if timeframe = ''tomorrow'' then
           (let tomorrow_start = at_hour (now + day_us) 0;
                tomorrow_end = tomorrow_start + day_us
            in tomorrow_start \<le> t \<and> t < tomorrow_end)
         else if timeframe = ''weekend'' then
           (let d = (5 - weekday now) mod 7;
                days_until_saturday = (if d = 0 \<and> 12 \<le> hour_of now then 7 else d);
                weekend_start = at_hour (now + days_until_saturday * day_us) 0;
                weekend_end = weekend_start + 2 * day_us
            in weekend_start \<le> t \<and> t < weekend_end)
         else
           (let end_time = now + 72 * hour_us
            in t \<le> end_time))"

text \<open>\<^verbatim>\<open>datetime.fromtimestamp(entry["dt"])\<close>.\<close>

definition entry_time :: "runtime \<Rightarrow> json \<Rightarrow> exn + int" where
  "entry_time rt entry = bind_exn (getitem entry ''dt'') (fromtimestamp rt)"

text \<open>
  The comprehension \<^verbatim>\<open>[entry for entry in forecast_list if ...]\<close>: the first entry
  whose time cannot be read raises.
\<close>

fun select :: "(int \<Rightarrow> bool) \<Rightarrow> runtime \<Rightarrow> json list \<Rightarrow> exn + json list" where
  "select keep rt [] = Inr []"
| "select keep rt (entry # entries) =
     bind_exn (entry_time rt entry) (\<lambda>t.
     bind_exn (select keep rt entries) (\<lambda>rest.
       Inr (if keep t then entry # rest else rest)))"

text \<open>
  Iterating the value under \<^verbatim>\<open>"list"\<close>: only a list has entries that can be
  subscripted with \<^verbatim>\<open>"dt"\<close>.
\<close>

fun entries_of :: "json \<Rightarrow> exn + json list" where
  "entries_of (JArr xs) = Inr xs"
| "entries_of x = Inl TypeError"

subsection \<open>Normalizing an entry\<close>

text \<open>\<^verbatim>\<open>x * 100\<close>: a number is multiplied, a string or a list is repeated.\<close>

fun mul100 :: "json \<Rightarrow> exn + json" where
  "mul100 (JInt n) = Inr (JInt (n * 100))"
| "mul100 (JReal q) = Inr (JReal (q * 100))"
| "mul100 (JBool b) = Inr (JInt (if b then 100 else 0))"
| "mul100 (JStr s) = Inr (JStr (concat (replicate 100 s)))"
| "mul100 (JArr xs) = Inr (JArr (concat (replicate 100 xs)))"
| "mul100 x = Inl TypeError"

definition normalize_entry :: "runtime \<Rightarrow> string \<Rightarrow> json \<Rightarrow> exn + json" where
  "normalize_entry rt units entry =
     bind_exn (attr_get entry ''main'' (JObj [])) (\<lambda>main.
     bind_exn (attr_get entry ''weather'' (JArr [JObj []])) (\<lambda>weathers.
     bind_exn (getitem0 weathers) (\<lambda>weather.
     bind_exn (attr_get entry ''wind'' (JObj [])) (\<lambda>wind.
     bind_exn (entry_time rt entry) (\<lambda>t.
     bind_exn (getitem entry ''dt'') (\<lambda>dt.
     bind_exn (attr_get main ''temp'' JNull) (\<lambda>temp.
     bind_exn (attr_get main ''feels_like'' JNull) (\<lambda>feels_like.
     bind_exn (attr_get main ''temp_min'' JNull) (\<lambda>temp_min.
     bind_exn (attr_get main ''temp_max'' JNull) (\<lambda>temp_max.
     bind_exn (attr_get weather ''main'' (JStr ''Unknown'')) (\<lambda>condition.
     bind_exn (attr_get weather ''description'' (JStr [])) (\<lambda>description.
     bind_exn (attr_get entry ''pop'' (JInt 0)) (\<lambda>pop.
     bind_exn (mul100 pop) (\<lambda>precipitation_prob.
     bind_exn (attr_get wind ''speed'' JNull) (\<lambda>wind_speed.
     bind_exn (attr_get main ''humidity'' JNull) (\<lambda>humidity.
     bind_exn (attr_get entry ''clouds'' (JObj [])) (\<lambda>clouds.
     bind_exn (attr_get clouds ''all'' JNull) (\<lambda>cloud_cover.
       Inr (JObj [(''datetime'', JStr (isoformat rt t)),
                  (''timestamp'', dt),
                  (''temp'', temp),
                  (''temp_unit'', JStr (temp_unit units)),
                  (''feels_like'', feels_like),
                  (''temp_min'', temp_min),
                  (''temp_max'', temp_max),
                  (''condition'', condition),
                  (''description'', description),
                  (''precipitation_prob'', precipitation_prob),
                  (''wind_speed'', wind_speed),
                  (''humidity'', humidity),
                  (''clouds'', cloud_cover)])))))))))))))))))))"

text \<open>The loop \<^verbatim>\<open>for entry in filtered_entries: normalized.append(...)\<close>.\<close>

fun normalize_all :: "runtime \<Rightarrow> string \<Rightarrow> json list \<Rightarrow> exn + json list" where
  "normalize_all rt units [] = Inr []"
| "normalize_all rt units (entry # entries) =
     bind_exn (normalize_entry rt units entry) (\<lambda>n.
     bind_exn (normalize_all rt units entries) (\<lambda>ns. Inr (n # ns)))"

subsection \<open>get_forecast\<close>

text \<open>
  \<^verbatim>\<open>client.forecast_5day(...)\<close>: the class \<^verbatim>\<open>OpenWeatherClient\<close> of
  clients/openWeatherAPI.py defines \<^verbatim>\<open>geocode_direct\<close> and \<^verbatim>\<open>current_weather\<close>
  and no \<^verbatim>\<open>forecast_5day\<close>, so the attribute lookup raises \<^verbatim>\<open>AttributeError\<close>
  before any request is made.
\<close>

definition forecast_5day :: "client \<Rightarrow> rat \<Rightarrow> rat \<Rightarrow> string \<Rightarrow> string option \<Rightarrow> exn + json" where
  "forecast_5day c lat lon units lang = Inl (AttributeError ''forecast_5day'')"

text \<open>The body of the \<^verbatim>\<open>try\<close>.\<close>

definition forecast_try :: "runtime \<Rightarrow> rat \<Rightarrow> rat \<Rightarrow> string \<Rightarrow> string \<Rightarrow> exn + pydict" where
  "forecast_try rt lat lon timeframe units =
     bind_exn (OpenWeatherClient (rt_settings rt)) (\<lambda>client.
     bind_exn (forecast_5day client lat lon units (Some (default_lang (rt_settings rt)))) (\<lambda>raw.
     bind_exn (attr_get raw ''list'' (JArr [])) (\<lambda>forecast_list.
       if \<not> truthy forecast_list then
         Inr [(''error'', JStr ''No forecast data available''), (''entries'', JArr [])]
       else
         bind_exn (entries_of forecast_list) (\<lambda>entries.
         bind_exn (select (in_window rt timeframe) rt entries) (\<lambda>filtered_entries.
         bind_exn (normalize_all rt units filtered_entries) (\<lambda>normalized.
           Inr [(''timeframe'', JStr timeframe),
                (''entries'', JArr normalized),
                (''count'', JInt (int (length normalized)))]))))))"

text \<open>The \<^verbatim>\<open>except Exception\<close> branch.\<close>

definition forecast_except :: "runtime \<Rightarrow> string \<Rightarrow> exn \<Rightarrow> pydict" where
  "forecast_except rt timeframe e =
     [(''error'', JStr (''Failed to fetch forecast data: '' @ exc_str rt e)),
      (''timeframe'', JStr timeframe),
      (''entries'', JArr []),
      (''count'', JInt 0)]"

definition get_forecast :: "runtime \<Rightarrow> rat \<Rightarrow> rat \<Rightarrow> string \<Rightarrow> string \<Rightarrow> pydict" where
  "get_forecast rt lat lon timeframe units =
     (case forecast_try rt lat lon timeframe units of
        Inr result \<Rightarrow> result
      | Inl e \<Rightarrow> forecast_except rt timeframe e)"

section \<open>The tool prompts (prompts/system_prompts.py)\<close>

definition newline :: string where
  "newline = [CHR 0x0A]"

definition TOOL_SYSTEM_PROMPTS :: "(string \<times> string) list" where
  "TOOL_SYSTEM_PROMPTS =
     [(''city_to_coords'',
         ''You have received geographic coordinates for a location.'' @ newline @
         ''Use these coordinates to fetch weather data if needed.'' @ newline @
         ''If the location was not found (error field present), politely ask the user to provide a more specific city name or verify the spelling.''),
      (''get_current_weather'',
         ''You have received current weather data for a location.'' @ newline @
         ''Present this information in a clear, conversational way:'' @ newline @
         ''- Lead with the current temperature and condition'' @ newline @
         ''- Mention feels-like temperature if significantly different'' @ newline @
         ''- Include wind speed and humidity when relevant'' @ newline @
         ''- Use appropriate units based on the data provided'' @ newline @
         ''- Keep the response concise but informative'' @ newline @ newline @
         ''If there'' @ quote @ ''s an error field, inform the user that weather data is temporarily unavailable and suggest trying again.'')]"

definition get_tool_prompt :: "string \<Rightarrow> string" where
  "get_tool_prompt tool_name =
     (case map_of TOOL_SYSTEM_PROMPTS tool_name of
        Some prompt \<Rightarrow> prompt
      | None \<Rightarrow> ''Process the tool result and provide a helpful response to the user.'')"

section \<open>The agent (agents/weather_agent.py)\<close>

subsection \<open>Messages\<close>

text \<open>
  A tool call of a model response has a name, arguments and an id. A response has its
  text, its tool calls and the usage metadata, which the message class allows to be
  \<^verbatim>\<open>None\<close>.
\<close>

record tool_call =
  call_name :: string
  call_args :: pydict
  call_id :: string

record usage =
  input_tokens :: int
  output_tokens :: int
  total_tokens :: int

record ai_message =
  content :: string
  tool_calls :: "tool_call list"
  usage_metadata :: "usage option"

datatype message =
    SystemMessage string
  | HumanMessage string
  | AIMessage ai_message
  | ToolMessage string string

subsection \<open>The agent and what surrounds it\<close>

text \<open>
  The model and the tools act on the world outside the agent, of type \<open>'w\<close>: a query
  and a tool execution take the world and return it changed, with what they return or
  raise. A tool of the map is \<^verbatim>\<open>tool.ainvoke\<close>; \<open>str_result\<close> is the builtin
  \<^verbatim>\<open>str\<close> on what a tool returns.
\<close>

type_synonym 'w tool = "'w \<Rightarrow> pydict \<Rightarrow> (exn + pydict) \<times> 'w"

record 'w agent =
  llm_with_tools :: "'w \<Rightarrow> message list \<Rightarrow> (exn + ai_message) \<times> 'w"
  tool_map :: "string \<Rightarrow> 'w tool option"
  system_prompt :: string
  str_result :: "pydict \<Rightarrow> string"

text \<open>
  \<^verbatim>\<open>WeatherAgent.__init__\<close>: the two tools, mapped by their names, and the system
  prompt. The model bound to the tools, the two tools and \<^verbatim>\<open>str\<close> are given.
\<close>

definition WeatherAgent ::
  "('w \<Rightarrow> message list \<Rightarrow> (exn + ai_message) \<times> 'w) \<Rightarrow> 'w tool \<Rightarrow> 'w tool \<Rightarrow>
   (pydict \<Rightarrow> string) \<Rightarrow> 'w agent" where
  "WeatherAgent llm city_to_coords_tool get_current_weather_tool str =
     \<lparr>llm_with_tools = llm,
      tool_map = map_of [(''city_to_coords'', city_to_coords_tool),
                         (''get_current_weather'', get_current_weather_tool)],
      system_prompt = ''You are a helpful weather assistant. Provide clear, concise weather information. Ask for clarification if location is unclear.'',
      str_result = str\<rparr>"

subsection \<open>The state of an invocation\<close>

text \<open>
  The variables of \<^verbatim>\<open>invoke\<close> and the world, and a record of what the invocation did:
  the conversation passed to each model query, the responses received and the tools
  executed, each in order.
\<close>

record 'w loop_state =
  messages :: "message list"
  input_Tokens :: int
  output_Tokens :: int
  total_Tokens :: int
  world :: 'w
  queries :: "message list list"
  responses :: "ai_message list"
  invoked :: "(string \<times> pydict) list"

text \<open>
  What an invocation leaves: the response returned or the exception raised, the tally
  printed before a return, and the record of the state.
\<close>

record 'w invoke_result =
  returned :: "exn + ai_message"
  printed_usage :: "usage option"
  final :: "'w loop_state"

subsection \<open>Executing the tool calls of a response\<close>

text \<open>
  The \<^verbatim>\<open>for tool_call in response.tool_calls\<close> loop. A name that the map does not
  have passes the \<^verbatim>\<open>if tool:\<close> guard by and nothing is appended. A tool that raises
  ends the invocation: the exception and the state reached are returned on the left.
\<close>

fun run_tool_calls ::
  "'w agent \<Rightarrow> tool_call list \<Rightarrow> 'w loop_state \<Rightarrow> (exn \<times> 'w loop_state) + 'w loop_state" where
  "run_tool_calls ag [] st = Inr st"
| "run_tool_calls ag (tc # tcs) st =
     (case tool_map ag (call_name tc) of
        None \<Rightarrow> run_tool_calls ag tcs st
      | Some tool \<Rightarrow>
          (case tool (world st) (call_args tc) of
             (Inl e, w) \<Rightarrow>
               Inl (e, st\<lparr>world := w, invoked := invoked st @ [(call_name tc, call_args tc)]\<rparr>)
           | (Inr result, w) \<Rightarrow>
               run_tool_calls ag tcs
                 (st\<lparr>world := w,
                     invoked := invoked st @ [(call_name tc, call_args tc)],
                     messages := messages st @
                       [SystemMessage (get_tool_prompt (call_name tc)),
                        ToolMessage (str_result ag result) (call_id tc)]\<rparr>)))"

subsection \<open>The loop of invoke\<close>

text \<open>
  The state after a model query answered with \<open>response\<close>, whose usage is \<open>u\<close>: the
  tally has grown and the conversation is rebuilt from the system prompt, the user's
  message and the response.
\<close>

definition after_query ::
  "'w agent \<Rightarrow> string \<Rightarrow> 'w loop_state \<Rightarrow> ai_message \<Rightarrow> usage \<Rightarrow> 'w \<Rightarrow> 'w loop_state" where
  "after_query ag message st response u w =
     st\<lparr>world := w,
        queries := queries st @ [messages st],
        responses := responses st @ [response],
        input_Tokens := input_Tokens st + input_tokens u,
        output_Tokens := output_Tokens st + output_tokens u,
        total_Tokens := total_Tokens st + total_tokens u,
        messages := [SystemMessage (system_prompt ag), HumanMessage message, AIMessage response]\<rparr>"

definition tally :: "'w loop_state \<Rightarrow> usage" where
  "tally st =
     \<lparr>input_tokens = input_Tokens st, output_tokens = output_Tokens st,
      total_tokens = total_Tokens st\<rparr>"

text \<open>
  \<^verbatim>\<open>while True\<close> has no bound, so the loop takes fuel, one unit for each model query:
  \<open>None\<close> is an invocation still running when the fuel is spent. A failing query, a
  response without usage metadata (subscripting \<^verbatim>\<open>None\<close>) and a failing tool raise.
\<close>

fun invoke_loop ::
  "nat \<Rightarrow> 'w agent \<Rightarrow> string \<Rightarrow> 'w loop_state \<Rightarrow> 'w invoke_result option" where
  "invoke_loop 0 ag message st = None"
| "invoke_loop (Suc n) ag message st =
     (case llm_with_tools ag (world st) (messages st) of
        (Inl e, w) \<Rightarrow>
          Some \<lparr>returned = Inl e, printed_usage = None,
                final = st\<lparr>world := w, queries := queries st @ [messages st]\<rparr>\<rparr>
      | (Inr response, w) \<Rightarrow>
          (case usage_metadata response of
             None \<Rightarrow>
               Some \<lparr>returned = Inl TypeError, printed_usage = None,
                     final = st\<lparr>world := w, queries := queries st @ [messages st],
                                responses := responses st @ [response]\<rparr>\<rparr>
           | Some u \<Rightarrow>
               (let st1 = after_query ag message st response u w
                in if tool_calls response = [] then
                     Some \<lparr>returned = Inr response, printed_usage = Some (tally st1), final = st1\<rparr>
                   else
                     (case run_tool_calls ag (tool_calls response) st1 of
                        Inl (e, st2) \<Rightarrow> Some \<lparr>returned = Inl e, printed_usage = None, final = st2\<rparr>
                      | Inr st2 \<Rightarrow> invoke_loop n ag message st2))))"

definition initial_state :: "'w agent \<Rightarrow> string \<Rightarrow> 'w \<Rightarrow> 'w loop_state" where
  "initial_state ag message w =
     \<lparr>messages = [SystemMessage (system_prompt ag), HumanMessage message],
      input_Tokens = 0, output_Tokens = 0, total_Tokens = 0, world = w,
      queries = [], responses = [], invoked = []\<rparr>"

definition invoke :: "nat \<Rightarrow> 'w agent \<Rightarrow> string \<Rightarrow> 'w \<Rightarrow> 'w invoke_result option" where
  "invoke fuel ag message w = invoke_loop fuel ag message (initial_state ag message w)"

section \<open>Words of the specification\<close>

text \<open>
  The specification builds the normalized name by joining the parts that are present with
  a separator. \<open>join\<close> is \<^verbatim>\<open>sep.join(parts)\<close>; a part of a place is present when the
  key holds a non-empty string, and textual when it is absent, null or a string.
\<close>

fun join :: "string \<Rightarrow> string list \<Rightarrow> string" where
  "join sep [] = []"
| "join sep [x] = x"
| "join sep (x # y # ys) = x @ sep @ join sep (y # ys)"

definition present :: "pydict \<Rightarrow> string \<Rightarrow> string list" where
  "present place k = (case map_of place k of Some (JStr s) \<Rightarrow> if s = [] then [] else [s] | _ \<Rightarrow> [])"

definition textual :: "pydict \<Rightarrow> string \<Rightarrow> bool" where
  "textual place k =
     (case map_of place k of None \<Rightarrow> True | Some JNull \<Rightarrow> True | Some (JStr s) \<Rightarrow> True | _ \<Rightarrow> False)"

text \<open>
  The time of a forecast entry as the tool reads it, for an entry whose time is readable.
\<close>

definition readable :: "runtime \<Rightarrow> json \<Rightarrow> bool" where
  "readable rt entry = (case entry_time rt entry of Inr t \<Rightarrow> True | Inl e \<Rightarrow> False)"

definition local_time :: "runtime \<Rightarrow> json \<Rightarrow> int" where
  "local_time rt entry = (case entry_time rt entry of Inr t \<Rightarrow> t | Inl e \<Rightarrow> 0)"

text \<open>
  Words for the conversation: a tool call is registered when the tool map has its name;
  the ids of the tool results of a conversation, in order; a conversation with the content
  of its tool results blanked; and the messages that answer a list of tool calls, a
  guidance message and a tool result for each, with blank content.
\<close>

definition registered :: "'w agent \<Rightarrow> tool_call \<Rightarrow> bool" where
  "registered ag tc = (case tool_map ag (call_name tc) of None \<Rightarrow> False | Some t \<Rightarrow> True)"

fun tool_result_ids :: "message list \<Rightarrow> string list" where
  "tool_result_ids [] = []"
| "tool_result_ids (ToolMessage c i # ms) = i # tool_result_ids ms"
| "tool_result_ids (m # ms) = tool_result_ids ms"

fun erase :: "message \<Rightarrow> message" where
  "erase (ToolMessage c i) = ToolMessage [] i"
| "erase m = m"

fun answers :: "tool_call list \<Rightarrow> message list" where
  "answers [] = []"
| "answers (tc # tcs) =
     SystemMessage (get_tool_prompt (call_name tc)) # ToolMessage [] (call_id tc) # answers tcs"

text \<open>The usage of the responses of an invocation, summed.\<close>

definition usage_of :: "ai_message \<Rightarrow> usage" where
  "usage_of r =
     (case usage_metadata r of
        Some u \<Rightarrow> u
      | None \<Rightarrow> \<lparr>input_tokens = 0, output_tokens = 0, total_tokens = 0\<rparr>)"

definition total_usage :: "ai_message list \<Rightarrow> usage" where
  "total_usage rs =
     \<lparr>input_tokens = sum_list (map (\<lambda>r. input_tokens (usage_of r)) rs),
      output_tokens = sum_list (map (\<lambda>r. output_tokens (usage_of r)) rs),
      total_tokens = sum_list (map (\<lambda>r. total_tokens (usage_of r)) rs)\<rparr>"

section \<open>Example inputs\<close>

definition resp503 :: http_response where
  "resp503 = \<lparr>status_code = 503, headers = [], body = None\<rparr>"

definition client3 :: client where
  "client3 = \<lparr>api_key = ''k'', base_url = ''https://api.openweathermap.org'', max_retries = 3, backoff_factor = 1 / 2\<rparr>"

text \<open>A host with a configured key, whose network answers every request the same way.\<close>

definition settings_ok :: settings where
  "settings_ok = \<lparr>default_lang = ''en'', weather_api_key = Some ''k''\<rparr>"

definition runtime_of :: "http_response \<Rightarrow> runtime" where
  "runtime_of resp =
     \<lparr>rt_settings = settings_ok, rt_net = (\<lambda>k path q. Inr resp), py_float = (\<lambda>s. None),
      exc_str = (\<lambda>e. ''error''), py_str = (\<lambda>v. ''value''), utcnow = 0, utcoffset = (\<lambda>t. 0),
      isoformat = (\<lambda>t. '''')\<rparr>"

definition resp401 :: http_response where
  "resp401 = \<lparr>status_code = 401, headers = [], body = None\<rparr>"

definition ok :: "json \<Rightarrow> http_response" where
  "ok j = \<lparr>status_code = 200, headers = [], body = Some j\<rparr>"

definition paris_fr :: pydict where
  "paris_fr = [(''name'', JStr ''Paris''), (''lat'', JReal (4885 / 100)), (''lon'', JReal (235 / 100)),
               (''country'', JStr ''FR''), (''state'', JNull)]"

definition paris_tx :: pydict where
  "paris_tx = [(''name'', JStr ''Paris''), (''lat'', JReal (3366 / 100)), (''lon'', JReal (- 9555 / 100)),
               (''country'', JStr ''US''), (''state'', JStr ''Texas'')]"

definition weather_json :: json where
  "weather_json =
     JObj [(''main'', JObj [(''temp'', JReal (215 / 10)), (''humidity'', JInt 60)]),
           (''weather'', JArr [JObj [(''main'', JStr ''Clouds'')]]),
           (''wind'', JObj [(''speed'', JReal 3)])]"

text \<open>
  An agent whose world counts the model queries made: the model asks for the given tool
  calls at its first query and answers at every later one; both tools return at once.
\<close>

definition stub_tool :: "nat tool" where
  "stub_tool w a = (Inr [(''lat'', JInt 1)], w)"

definition call_known :: tool_call where
  "call_known =
     \<lparr>call_name = ''city_to_coords'', call_args = [(''city'', JStr ''Paris'')], call_id = ''call_1''\<rparr>"

definition call_unknown :: tool_call where
  "call_unknown =
     \<lparr>call_name = ''get_forecast'', call_args = [(''lat'', JInt 1), (''lon'', JInt 2)],
      call_id = ''call_2''\<rparr>"

definition ask :: "tool_call list \<Rightarrow> ai_message" where
  "ask tcs =
     \<lparr>content = [], tool_calls = tcs,
      usage_metadata = Some \<lparr>input_tokens = 10, output_tokens = 5, total_tokens = 15\<rparr>\<rparr>"

definition answer :: ai_message where
  "answer =
     \<lparr>content = ''Sunny'', tool_calls = [],
      usage_metadata = Some \<lparr>input_tokens = 20, output_tokens = 7, total_tokens = 27\<rparr>\<rparr>"

definition scripted :: "ai_message \<Rightarrow> nat \<Rightarrow> message list \<Rightarrow> (exn + ai_message) \<times> nat" where
  "scripted first w ms = (Inr (if w = 0 then first else answer), Suc w)"

definition example_agent :: "tool_call list \<Rightarrow> nat agent" where
  "example_agent tcs = WeatherAgent (scripted (ask tcs)) stub_tool stub_tool (\<lambda>d. ''result'')"

text \<open>
  The state of the example agent after its first response, which asks for the registered
  call, and the execution of that call.
\<close>

definition after_known :: "nat loop_state" where
  "after_known =
     \<lparr>messages =
        [SystemMessage (system_prompt (example_agent [call_known])), HumanMessage ''hello'',
         AIMessage (ask [call_known]),
         SystemMessage (get_tool_prompt ''city_to_coords''), ToolMessage ''result'' ''call_1''],
      input_Tokens = 10, output_Tokens = 5, total_Tokens = 15, world = Suc 0,
      queries = [[SystemMessage (system_prompt (example_agent [call_known])), HumanMessage ''hello'']],
      responses = [ask [call_known]],
      invoked = [(''city_to_coords'', [(''city'', JStr ''Paris'')])]\<rparr>"

section \<open>Properties\<close>


subsection \<open>The OpenWeather client\<close>

lemma pow2_nonneg: "0 \<le> e \<Longrightarrow> pow2 e = 2 ^ nat e"
  by (simp add: pow2_def)

lemma compute_delay_None: "compute_delay c float n None = backoff_factor c * pow2 (n - 1)"
  by (simp add: compute_delay_def)

text \<open>
  Claim C7. For an attempt number \<open>n \<ge> 1\<close> the delay is
  \<open>backoff_factor * 2 ^ (n - 1)\<close>: always when no response is given, when the status is
  not 429 or when there is no \<^verbatim>\<open>Retry-After\<close> header. On a 429 whose header parses as a
  number the delay is the larger of that number and the exponential delay; a header that
  does not parse is ignored. With a factor of one half, attempt 1 waits 0.5 and attempt 3
  waits 2; a 429 with \<^verbatim>\<open>Retry-After: 10\<close> at attempt 1 waits 10.
\<close>

theorem compute_delay_spec:
  "(1 \<le> n \<longrightarrow> compute_delay c float n None = backoff_factor c * 2 ^ nat (n - 1))
 \<and> (1 \<le> n \<and> (status_code r \<noteq> 429 \<or> map_of (headers r) ''Retry-After'' = None)
      \<longrightarrow> compute_delay c float n (Some r) = backoff_factor c * 2 ^ nat (n - 1))
 \<and> (1 \<le> n \<and> status_code r = 429 \<and> map_of (headers r) ''Retry-After'' = Some ra \<and> ra \<noteq> []
      \<and> float ra = Some seconds
      \<longrightarrow> compute_delay c float n (Some r) = max seconds (backoff_factor c * 2 ^ nat (n - 1)))
 \<and> (1 \<le> n \<and> status_code r = 429 \<and> map_of (headers r) ''Retry-After'' = Some ra
      \<and> float ra = None
      \<longrightarrow> compute_delay c float n (Some r) = backoff_factor c * 2 ^ nat (n - 1))
 \<and> (backoff_factor c = 1 / 2 \<longrightarrow>
        compute_delay c float 1 None = 1 / 2 \<and> compute_delay c float 3 None = 2)
 \<and> (backoff_factor c = 1 / 2 \<and> status_code r = 429
      \<and> map_of (headers r) ''Retry-After'' = Some ''10'' \<and> float ''10'' = Some 10
      \<longrightarrow> compute_delay c float 1 (Some r) = 10)"
  by (auto simp: compute_delay_def pow2_def Let_def)

lemma finish_retriable: "retriable_status resp \<Longrightarrow> finish resp = Inl (HTTPStatusError resp)"
  by (auto simp: finish_def raise_for_status_def is_success_def retriable_status_def)

lemma finish_not_success: "\<not> is_success resp \<Longrightarrow> finish resp = Inl (HTTPStatusError resp)"
  by (auto simp: finish_def raise_for_status_def)

lemma get_loop_retry_response:
  "attempt + 1 < max_retries c \<Longrightarrow> net (nat (attempt + 1)) path qp = Inr resp \<Longrightarrow>
   retriable_status resp \<Longrightarrow>
   get_loop c float net path qp attempt last_exc slept =
     get_loop c float net path qp (attempt + 1) last_exc
       (slept @ [compute_delay c float (attempt + 1) (Some resp)])"
  by (subst get_loop.simps) simp

lemma get_loop_last_response:
  "attempt < max_retries c \<Longrightarrow> net (nat (attempt + 1)) path qp = Inr resp \<Longrightarrow>
   \<not> (retriable_status resp \<and> attempt + 1 < max_retries c) \<Longrightarrow>
   get_loop c float net path qp attempt last_exc slept =
     \<lparr>outcome = finish resp, attempts = nat (attempt + 1), sleeps = slept\<rparr>"
  by (subst get_loop.simps) auto

lemma get_loop_exhaust:
  "n = nat (max_retries c - a) \<Longrightarrow> 0 \<le> a \<Longrightarrow> a < max_retries c \<Longrightarrow>
   (\<And>k. a < k \<Longrightarrow> k \<le> max_retries c \<Longrightarrow> net (nat k) path qp = Inr (rs k) \<and> retriable_status (rs k)) \<Longrightarrow>
   get_loop c float net path qp a le sl =
     \<lparr>outcome = Inl (HTTPStatusError (rs (max_retries c))), attempts = nat (max_retries c),
      sleeps = sl @ map (\<lambda>k. compute_delay c float k (Some (rs k))) [a + 1 .. max_retries c - 1]\<rparr>"
proof (induction n arbitrary: a sl)
  case 0
  then show ?case by linarith
next
  case (Suc n)
  have "a < a + 1" and "a + 1 \<le> max_retries c"
    using Suc.prems(3) by simp_all
  from Suc.prems(4)[OF this]
  have n: "net (nat (a + 1)) path qp = Inr (rs (a + 1))" and r: "retriable_status (rs (a + 1))"
    by blast+
  show ?case
  proof (cases "a + 1 < max_retries c")
    case True
    have step: "get_loop c float net path qp a le sl =
          get_loop c float net path qp (a + 1) le
                 (sl @ [compute_delay c float (a + 1) (Some (rs (a + 1)))])"
      using True n r by (rule get_loop_retry_response)
    have p1: "n = nat (max_retries c - (a + 1))" using Suc.prems(1) by linarith
    have p2: "0 \<le> a + 1" using Suc.prems(2) by simp
    have p4: "\<And>k. a + 1 < k \<Longrightarrow> k \<le> max_retries c \<Longrightarrow>
                net (nat k) path qp = Inr (rs k) \<and> retriable_status (rs k)"
    proof -
      fix k assume "a + 1 < k" and k: "k \<le> max_retries c"
      then have "a < k" by simp
      then show "net (nat k) path qp = Inr (rs k) \<and> retriable_status (rs k)"
        using k by (rule Suc.prems(4))
    qed
    have ih: "get_loop c float net path qp (a + 1) le
                 (sl @ [compute_delay c float (a + 1) (Some (rs (a + 1)))]) =
       \<lparr>outcome = Inl (HTTPStatusError (rs (max_retries c))), attempts = nat (max_retries c),
        sleeps = (sl @ [compute_delay c float (a + 1) (Some (rs (a + 1)))]) @
          map (\<lambda>k. compute_delay c float k (Some (rs k))) [a + 1 + 1 .. max_retries c - 1]\<rparr>"
      using p1 p2 True p4 by (rule Suc.IH)
    have up: "[a + 1 .. max_retries c - 1] = (a + 1) # [a + 1 + 1 .. max_retries c - 1]"
      using True by (subst upto_rec1) simp_all
    show ?thesis unfolding step ih up by simp
  next
    case False
    then have eq: "a + 1 = max_retries c" using Suc.prems(3) by simp
    have "get_loop c float net path qp a le sl =
            \<lparr>outcome = finish (rs (a + 1)), attempts = nat (a + 1), sleeps = sl\<rparr>"
      using Suc.prems(3) n False by (intro get_loop_last_response) simp_all
    then show ?thesis using r unfolding eq[symmetric] by (simp add: finish_retriable)
  qed
qed


lemma get_loop_no_retry:
  "attempt < max_retries c \<Longrightarrow> net (nat (attempt + 1)) path qp = Inr resp \<Longrightarrow>
   \<not> retriable_status resp \<Longrightarrow> \<not> is_success resp \<Longrightarrow>
   get_loop c float net path qp attempt last_exc slept =
     \<lparr>outcome = Inl (HTTPStatusError resp), attempts = nat (attempt + 1), sleeps = slept\<rparr>"
  by (simp add: get_loop_last_response finish_not_success)

lemma merge_appid_length: "length s \<le> length (snd (merge_appid c params s))"
  by (auto simp: merge_appid_def alloc_def store_setitem_def Let_def split: option.splits)

lemma merge_appid_frame: "a < length s \<Longrightarrow> snd (merge_appid c params s) ! a = s ! a"
  by (auto simp: merge_appid_def alloc_def store_setitem_def Let_def nth_append split: option.splits)

lemma merge_appid_qp:
  "p < length s \<Longrightarrow>
   snd (merge_appid c (Some p) s) ! fst (merge_appid c (Some p) s) =
     dict_set (s ! p) ''appid'' (JStr (api_key c))"
  by (auto simp: merge_appid_def alloc_def store_setitem_def Let_def nth_append)

lemma merge_appid_qp_None:
  "snd (merge_appid c None s) ! fst (merge_appid c None s) = [(''appid'', JStr (api_key c))]"
  by (auto simp: merge_appid_def alloc_def store_setitem_def Let_def nth_append)

lemma client_get_fst:
  "fst (client_get c float net path params s) =
     get_loop c float net path
       (snd (merge_appid c params s) ! fst (merge_appid c params s)) 0 None []"
  by (simp add: client_get_def split_beta)

lemma client_get_snd: "snd (client_get c float net path params s) = snd (merge_appid c params s)"
  by (simp add: client_get_def split_beta)

text \<open>
  Claim C10. \<^verbatim>\<open>_get\<close> leaves every dict that existed before the call as it was, the
  caller's parameters among them; the request is sent with a copy of the caller's
  parameters to which the API key has been added.
\<close>

theorem client_get_keeps_params:
  "(a < length s \<longrightarrow> snd (client_get c float net path params s) ! a = s ! a)
 \<and> (p < length s \<longrightarrow>
      fst (client_get c float net path (Some p) s) =
        get_loop c float net path (dict_set (s ! p) ''appid'' (JStr (api_key c))) 0 None [])"
  by (simp add: client_get_fst client_get_snd merge_appid_frame merge_appid_qp)

text \<open>
  Claim C6. A response with status 429 or 5xx is retried, after the computed delay, while
  attempts remain. When every attempt up to \<open>max_retries\<close> is answered so, the call
  raises the status error of the last response after exactly \<open>max_retries\<close> requests and
  \<open>max_retries - 1\<close> sleeps. A response with any other status outside 2xx raises its
  status error at once, whatever attempts remain.
\<close>

theorem get_retry_policy:
  "(attempt + 1 < max_retries c \<and> net (nat (attempt + 1)) path qp = Inr resp \<and> retriable_status resp
      \<longrightarrow> get_loop c float net path qp attempt last_exc slept =
          get_loop c float net path qp (attempt + 1) last_exc
            (slept @ [compute_delay c float (attempt + 1) (Some resp)]))
 \<and> (0 < max_retries c
      \<and> (\<forall>k q. 0 < k \<and> k \<le> max_retries c \<longrightarrow> net (nat k) path q = Inr (rs k) \<and> retriable_status (rs k))
      \<longrightarrow> fst (client_get c float net path params s) =
          \<lparr>outcome = Inl (HTTPStatusError (rs (max_retries c))),
           attempts = nat (max_retries c),
           sleeps = map (\<lambda>k. compute_delay c float k (Some (rs k))) [1 .. max_retries c - 1]\<rparr>)
 \<and> (attempt < max_retries c \<and> net (nat (attempt + 1)) path qp = Inr resp
      \<and> \<not> retriable_status resp \<and> \<not> is_success resp
      \<longrightarrow> get_loop c float net path qp attempt last_exc slept =
          \<lparr>outcome = Inl (HTTPStatusError resp), attempts = nat (attempt + 1), sleeps = slept\<rparr>)"
proof (intro conjI impI)
  assume "attempt + 1 < max_retries c \<and> net (nat (attempt + 1)) path qp = Inr resp \<and> retriable_status resp"
  then show "get_loop c float net path qp attempt last_exc slept =
          get_loop c float net path qp (attempt + 1) last_exc
            (slept @ [compute_delay c float (attempt + 1) (Some resp)])"
    by (simp add: get_loop_retry_response)
next
  assume h: "0 < max_retries c
      \<and> (\<forall>k q. 0 < k \<and> k \<le> max_retries c \<longrightarrow> net (nat k) path q = Inr (rs k) \<and> retriable_status (rs k))"
  define qp' where "qp' = snd (merge_appid c params s) ! fst (merge_appid c params s)"
  have "get_loop c float net path qp' 0 None [] =
     \<lparr>outcome = Inl (HTTPStatusError (rs (max_retries c))), attempts = nat (max_retries c),
      sleeps = [] @ map (\<lambda>k. compute_delay c float k (Some (rs k))) [0 + 1 .. max_retries c - 1]\<rparr>"
  proof (rule get_loop_exhaust[OF refl])
    show "(0::int) \<le> 0" by simp
    show "0 < max_retries c" using h by blast
    fix k assume "0 < k" "k \<le> max_retries c"
    then show "net (nat k) path qp' = Inr (rs k) \<and> retriable_status (rs k)" using h by blast
  qed
  then show "fst (client_get c float net path params s) =
          \<lparr>outcome = Inl (HTTPStatusError (rs (max_retries c))),
           attempts = nat (max_retries c),
           sleeps = map (\<lambda>k. compute_delay c float k (Some (rs k))) [1 .. max_retries c - 1]\<rparr>"
    by (simp add: client_get_fst qp'_def)
next
  assume "attempt < max_retries c \<and> net (nat (attempt + 1)) path qp = Inr resp
      \<and> \<not> retriable_status resp \<and> \<not> is_success resp"
  then show "get_loop c float net path qp attempt last_exc slept =
          \<lparr>outcome = Inl (HTTPStatusError resp), attempts = nat (attempt + 1), sleeps = slept\<rparr>"
    by (intro get_loop_no_retry) simp_all
qed

lemma upto_1_2: "[1 .. (2::int)] = [1, 2]"
  by (simp add: upto_rec1)

theorem get_retry_policy_witness:
  "fst (client_get client3 (\<lambda>s. None) (\<lambda>k path q. Inr resp503) ''/data/2.5/weather'' None []) =
     \<lparr>outcome = Inl (HTTPStatusError resp503), attempts = 3, sleeps = [1 / 2, 1]\<rparr>
 \<and> get_loop client3 (\<lambda>s. None) (\<lambda>k path q. Inr resp503) ''/p'' [] 0 None [] =
     get_loop client3 (\<lambda>s. None) (\<lambda>k path q. Inr resp503) ''/p'' [] 1 None [1 / 2]
 \<and> get_loop client3 (\<lambda>s. None)
       (\<lambda>k path q. Inr \<lparr>status_code = 404, headers = [], body = None\<rparr>) ''/p'' [] 0 None [] =
     \<lparr>outcome = Inl (HTTPStatusError \<lparr>status_code = 404, headers = [], body = None\<rparr>),
      attempts = 1, sleeps = []\<rparr>"
proof -
  have a: "retriable_status resp503" by (simp add: retriable_status_def resp503_def)
  have m: "max_retries client3 = 3" by (simp add: client3_def)
  have d: "\<And>k. compute_delay client3 (\<lambda>s. None) k (Some resp503) = 1 / 2 * pow2 (k - 1)"
    by (simp add: compute_delay_def client3_def resp503_def)
  have n4: "\<not> retriable_status \<lparr>status_code = 404, headers = [], body = None\<rparr>"
           "\<not> is_success \<lparr>status_code = 404, headers = [], body = None\<rparr>"
    by (simp_all add: retriable_status_def is_success_def)
  show ?thesis
    using get_retry_policy[where attempt = 0 and c = client3 and net = "\<lambda>k path q. Inr resp503"
        and path = "''/p''" and qp = "[]" and resp = resp503 and float = "\<lambda>s. None"
        and last_exc = None and slept = "[]" and rs = "\<lambda>k. resp503"]
      get_retry_policy[where attempt = 0 and c = client3 and net = "\<lambda>k path q. Inr resp503"
        and path = "''/data/2.5/weather''" and qp = "[]" and resp = resp503 and float = "\<lambda>s. None"
        and last_exc = None and slept = "[]" and rs = "\<lambda>k. resp503" and params = None and s = "[]"]
      get_retry_policy[where attempt = 0 and c = client3
        and net = "\<lambda>k path q. Inr \<lparr>status_code = 404, headers = [], body = None\<rparr>"
        and path = "''/p''" and qp = "[]" and resp = "\<lparr>status_code = 404, headers = [], body = None\<rparr>"
        and float = "\<lambda>s. None" and last_exc = None and slept = "[]"]
    by (simp add: a m d n4 upto_1_2 pow2_def)
qed

theorem compute_delay_spec_witness:
  "compute_delay client3 (\<lambda>s. if s = ''10'' then Some 10 else None) 1
     (Some \<lparr>status_code = 429, headers = [(''Retry-After'', ''10'')], body = None\<rparr>) = 10
 \<and> compute_delay client3 (\<lambda>s. if s = ''10'' then Some 10 else None) 3
     (Some \<lparr>status_code = 429, headers = [(''Retry-After'', ''soon'')], body = None\<rparr>) = 2
 \<and> compute_delay client3 (\<lambda>s. if s = ''10'' then Some 10 else None) 1 None = 1 / 2
 \<and> compute_delay client3 (\<lambda>s. if s = ''10'' then Some 10 else None) 3 None = 2
 \<and> compute_delay client3 (\<lambda>s. if s = ''10'' then Some 10 else None) 2 (Some resp503) = 1"
  using compute_delay_spec[where n = 1 and c = client3
          and float = "\<lambda>s. if s = ''10'' then Some 10 else None"
          and r = "\<lparr>status_code = 429, headers = [(''Retry-After'', ''10'')], body = None\<rparr>"
          and ra = "''10''" and seconds = 10]
        compute_delay_spec[where n = 3 and c = client3
          and float = "\<lambda>s. if s = ''10'' then Some 10 else None"
          and r = "\<lparr>status_code = 429, headers = [(''Retry-After'', ''soon'')], body = None\<rparr>"
          and ra = "''soon''"]
        compute_delay_spec[where n = 2 and c = client3
          and float = "\<lambda>s. if s = ''10'' then Some 10 else None" and r = resp503]
  by (simp add: client3_def resp503_def)

theorem client_get_keeps_params_witness:
  "snd (client_get client3 (\<lambda>s. None) (\<lambda>k path q. Inr resp503) ''/geo/1.0/direct'' (Some 0)
          [[(''q'', JStr ''Paris''), (''limit'', JInt 1)]]) ! 0
     = [(''q'', JStr ''Paris''), (''limit'', JInt 1)]
 \<and> fst (client_get client3 (\<lambda>s. None) (\<lambda>k path q. Inr resp503) ''/geo/1.0/direct'' (Some 0)
          [[(''q'', JStr ''Paris''), (''limit'', JInt 1)]])
     = get_loop client3 (\<lambda>s. None) (\<lambda>k path q. Inr resp503) ''/geo/1.0/direct''
         [(''q'', JStr ''Paris''), (''limit'', JInt 1), (''appid'', JStr ''k'')] 0 None []"
  using client_get_keeps_params[where a = 0 and s = "[[(''q'', JStr ''Paris''), (''limit'', JInt 1)]]"
          and c = client3 and float = "\<lambda>s. None" and net = "\<lambda>k path q. Inr resp503"
          and path = "''/geo/1.0/direct''" and params = "Some 0" and p = 0]
  by (simp add: client3_def)

subsection \<open>The weather tools\<close>

lemma get_loop_first_success:
  "0 < max_retries c \<Longrightarrow> net (Suc 0) path qp = Inr resp \<Longrightarrow> is_success resp \<Longrightarrow>
   get_loop c float net path qp 0 None [] = \<lparr>outcome = resp_json resp, attempts = 1, sleeps = []\<rparr>"
  by (subst get_loop.simps)
     (auto simp: retriable_status_def is_success_def finish_def raise_for_status_def)

lemma get_loop_first_error:
  "0 < max_retries c \<Longrightarrow> net (Suc 0) path qp = Inr resp \<Longrightarrow> \<not> is_success resp \<Longrightarrow>
   \<not> retriable_status resp \<Longrightarrow>
   get_loop c float net path qp 0 None [] =
     \<lparr>outcome = Inl (HTTPStatusError resp), attempts = 1, sleeps = []\<rparr>"
  using get_loop_no_retry[of 0 c net path qp resp float None "[]"] by simp

lemma OpenWeatherClient_ok:
  "OpenWeatherClient settings_ok =
     Inr \<lparr>api_key = ''k'', base_url = ''https://api.openweathermap.org'', max_retries = 3,
          backoff_factor = 1 / 2\<rparr>"
  by (simp add: OpenWeatherClient_def OpenWeatherClient_init_def settings_ok_def rstrip_def)

lemma OpenWeatherClient_retries:
  "OpenWeatherClient st = Inr c \<Longrightarrow> max_retries c = 3"
  by (auto simp: OpenWeatherClient_def OpenWeatherClient_init_def Let_def split: option.splits if_splits)

lemma geocode_direct_fst:
  "fst (geocode_direct c float net q limit lang []) =
     get_loop c float net ''/geo/1.0/direct''
       (snd (merge_appid c (Some 0) (with_lang lang 0 [[(''q'', JStr q), (''limit'', JInt limit)]])) !
        fst (merge_appid c (Some 0) (with_lang lang 0 [[(''q'', JStr q), (''limit'', JInt limit)]])))
       0 None []"
  by (simp add: geocode_direct_def alloc_def client_get_fst)

lemma current_weather_fst:
  "fst (current_weather c float net lat lon units lang []) =
     get_loop c float net ''/data/2.5/weather''
       (snd (merge_appid c (Some 0) (with_lang lang 0 [[(''lat'', JReal lat), (''lon'', JReal lon), (''units'', JStr units)]])) !
        fst (merge_appid c (Some 0) (with_lang lang 0 [[(''lat'', JReal lat), (''lon'', JReal lon), (''units'', JStr units)]])))
       0 None []"
  by (simp add: current_weather_def alloc_def client_get_fst)

lemma geocode_constant_net:
  "0 < max_retries c \<Longrightarrow> \<not> retriable_status resp \<Longrightarrow>
   outcome (fst (geocode_direct c float (\<lambda>k path q. Inr resp) q limit lang [])) = finish resp"
  by (simp add: geocode_direct_fst get_loop_last_response)

lemma current_weather_constant_net:
  "0 < max_retries c \<Longrightarrow> \<not> retriable_status resp \<Longrightarrow>
   outcome (fst (current_weather c float (\<lambda>k path q. Inr resp) lat lon units lang [])) = finish resp"
  by (simp add: current_weather_fst get_loop_last_response)


lemma bind_exn_simps [simp]:
  "bind_exn (Inl e) f = Inl e"
  "bind_exn (Inr a) f = f a"
  by (simp_all add: bind_exn_def)

lemma city_to_coords_not_found:
  assumes "OpenWeatherClient (rt_settings rt) = Inr client"
      and "outcome (fst (geocode_direct client (py_float rt) (rt_net rt) city 1
                           (Some (default_lang (rt_settings rt))) [])) = Inr (JArr [])"
  shows "city_to_coords rt city =
           Inr [(''error'', JStr (''Could not find coordinates for '' @ quote @ city @ quote)),
                (''lat'', JNull), (''lon'', JNull), (''normalized_name'', JNull)]"
  using assms by (simp add: city_to_coords_def)

lemma name_parts:
  assumes "textual place k"
  shows "(if truthy (dict_get place k JNull)
          then iadd_str (JStr a) ('', '' @ format_value rt (dict_get place k JNull))
          else Inr (JStr a)) = Inr (JStr (join '', '' (a # present place k)))"
  using assms
  by (auto simp: textual_def dict_get_def present_def format_value_def
           split: option.splits json.splits)

lemma join_snoc2:
  "join sep (join sep (a # xs) # ys) = join sep (a # xs @ ys)"
proof (induction xs arbitrary: a)
  case Nil
  then show ?case by (cases ys) simp_all
next
  case (Cons x xs)
  have "join sep (join sep (a # x # xs) # ys) = join sep ((a @ sep @ join sep (x # xs)) # ys)"
    by simp
  also have "\<dots> = a @ sep @ join sep (join sep (x # xs) # ys)"
    by (cases ys) simp_all
  also have "\<dots> = a @ sep @ join sep (x # xs @ ys)"
    by (simp add: Cons.IH)
  finally show ?case by simp
qed

lemma city_to_coords_found:
  assumes "OpenWeatherClient (rt_settings rt) = Inr client"
      and "outcome (fst (geocode_direct client (py_float rt) (rt_net rt) city 1
                           (Some (default_lang (rt_settings rt))) [])) = Inr (JArr (JObj place # rest))"
      and "map_of place ''name'' = Some (JStr name)"
      and "map_of place ''lat'' = Some lat" and "map_of place ''lon'' = Some lon"
      and "textual place ''state''" and "textual place ''country''"
  shows "city_to_coords rt city =
           Inr [(''lat'', lat), (''lon'', lon),
                (''normalized_name'',
                   JStr (join '', '' (name # present place ''state'' @ present place ''country'')))]"
proof -
  have n: "dict_get place ''name'' (JStr []) = JStr name"
    using assms(3) by (simp add: dict_get_def)
  show ?thesis
    using assms(1,2,4,5)
    by (simp add: city_to_coords_def n name_parts[OF assms(6)] name_parts[OF assms(7)] join_snoc2)
qed


text \<open>
  Claim C8. When the geocoding lookup returns an empty list, \<^verbatim>\<open>city_to_coords\<close> yields
  a non-empty error with \<open>lat\<close>, \<open>lon\<close> and \<open>normalized_name\<close> null. When it returns
  a list whose first candidate has a name, a latitude and a longitude, the tool yields that
  latitude and longitude, and the name joined by \<^verbatim>\<open>", "\<close> with the state and the
  country, each only if present.
\<close>

theorem city_to_coords_spec:
  "OpenWeatherClient (rt_settings rt) = Inr client \<and>
   outcome (fst (geocode_direct client (py_float rt) (rt_net rt) city 1
                   (Some (default_lang (rt_settings rt))) [])) = Inr results
   \<longrightarrow>
   (results = JArr [] \<longrightarrow>
      (\<exists>msg. msg \<noteq> [] \<and>
         city_to_coords rt city =
           Inr [(''error'', JStr msg), (''lat'', JNull), (''lon'', JNull),
                (''normalized_name'', JNull)]))
   \<and> (results = JArr (JObj place # rest) \<and> map_of place ''name'' = Some (JStr name) \<and>
        map_of place ''lat'' = Some lat \<and> map_of place ''lon'' = Some lon \<and>
        textual place ''state'' \<and> textual place ''country'' \<longrightarrow>
        city_to_coords rt city =
          Inr [(''lat'', lat), (''lon'', lon),
               (''normalized_name'',
                  JStr (join '', '' (name # present place ''state'' @ present place ''country'')))])"
proof (intro impI conjI)
  assume h: "OpenWeatherClient (rt_settings rt) = Inr client \<and>
   outcome (fst (geocode_direct client (py_float rt) (rt_net rt) city 1
                   (Some (default_lang (rt_settings rt))) [])) = Inr results"
    and e: "results = JArr []"
  have "city_to_coords rt city =
           Inr [(''error'', JStr (''Could not find coordinates for '' @ quote @ city @ quote)),
                (''lat'', JNull), (''lon'', JNull), (''normalized_name'', JNull)]"
    using h e by (intro city_to_coords_not_found[of rt client]) simp_all
  then show "\<exists>msg. msg \<noteq> [] \<and>
         city_to_coords rt city =
           Inr [(''error'', JStr msg), (''lat'', JNull), (''lon'', JNull),
                (''normalized_name'', JNull)]"
    by simp
next
  assume h: "OpenWeatherClient (rt_settings rt) = Inr client \<and>
   outcome (fst (geocode_direct client (py_float rt) (rt_net rt) city 1
                   (Some (default_lang (rt_settings rt))) [])) = Inr results"
    and p: "results = JArr (JObj place # rest) \<and> map_of place ''name'' = Some (JStr name) \<and>
        map_of place ''lat'' = Some lat \<and> map_of place ''lon'' = Some lon \<and>
        textual place ''state'' \<and> textual place ''country''"
  show "city_to_coords rt city =
          Inr [(''lat'', lat), (''lon'', lon),
               (''normalized_name'',
                  JStr (join '', '' (name # present place ''state'' @ present place ''country'')))]"
    using h p by (intro city_to_coords_found[of rt client _ _ rest]) simp_all
qed

lemma runtime_of_simps:
  "rt_settings (runtime_of r) = settings_ok"
  "rt_net (runtime_of r) = (\<lambda>k path q. Inr r)"
  "py_float (runtime_of r) = (\<lambda>s. None)"
  by (simp_all add: runtime_of_def)

lemma geocode_runtime_of:
  "\<not> retriable_status r \<Longrightarrow>
   outcome (fst (geocode_direct
      \<lparr>api_key = ''k'', base_url = ''https://api.openweathermap.org'', max_retries = 3,
          backoff_factor = 1 / 2\<rparr> (\<lambda>s. None) (\<lambda>k path q. Inr r) city 1 lang [])) = finish r"
  by (rule geocode_constant_net) simp_all

lemma finish_ok: "finish (ok j) = Inr j"
  by (simp add: finish_def ok_def raise_for_status_def is_success_def resp_json_def)

lemma not_retriable_ok: "\<not> retriable_status (ok j)"
  by (simp add: retriable_status_def ok_def)

theorem city_to_coords_spec_witness:
  "(\<exists>msg. msg \<noteq> [] \<and>
      city_to_coords (runtime_of (ok (JArr []))) ''Unknown Place'' =
        Inr [(''error'', JStr msg), (''lat'', JNull), (''lon'', JNull), (''normalized_name'', JNull)])
 \<and> city_to_coords (runtime_of (ok (JArr [JObj paris_fr]))) ''Paris'' =
      Inr [(''lat'', JReal (4885 / 100)), (''lon'', JReal (235 / 100)),
           (''normalized_name'', JStr ''Paris, FR'')]
 \<and> city_to_coords (runtime_of (ok (JArr [JObj paris_tx]))) ''Paris'' =
      Inr [(''lat'', JReal (3366 / 100)), (''lon'', JReal (- 9555 / 100)),
           (''normalized_name'', JStr ''Paris, Texas, US'')]"
  using city_to_coords_spec[where rt = "runtime_of (ok (JArr []))" and city = "''Unknown Place''"
          and results = "JArr []"
          and client = "\<lparr>api_key = ''k'', base_url = ''https://api.openweathermap.org'',
                          max_retries = 3, backoff_factor = 1 / 2\<rparr>"]
        city_to_coords_spec[where rt = "runtime_of (ok (JArr [JObj paris_fr]))" and city = "''Paris''"
          and results = "JArr [JObj paris_fr]" and place = paris_fr and rest = "[]"
          and name = "''Paris''" and lat = "JReal (4885 / 100)" and lon = "JReal (235 / 100)"
          and client = "\<lparr>api_key = ''k'', base_url = ''https://api.openweathermap.org'',
                          max_retries = 3, backoff_factor = 1 / 2\<rparr>"]
        city_to_coords_spec[where rt = "runtime_of (ok (JArr [JObj paris_tx]))" and city = "''Paris''"
          and results = "JArr [JObj paris_tx]" and place = paris_tx and rest = "[]"
          and name = "''Paris''" and lat = "JReal (3366 / 100)" and lon = "JReal (- 9555 / 100)"
          and client = "\<lparr>api_key = ''k'', base_url = ''https://api.openweathermap.org'',
                          max_retries = 3, backoff_factor = 1 / 2\<rparr>"]
  by (simp add: runtime_of_simps OpenWeatherClient_ok geocode_runtime_of finish_ok not_retriable_ok
        paris_fr_def paris_tx_def textual_def present_def)

text \<open>
  Claim C3. \<^verbatim>\<open>city_to_coords\<close> has no handler: when the geocoding request is answered
  with status 401, the status error leaves the tool instead of becoming an error result.
\<close>

theorem city_to_coords_raises:
  "city_to_coords (runtime_of resp401) ''Paris'' = Inl (HTTPStatusError resp401)"
proof -
  have "\<not> retriable_status resp401" "\<not> is_success resp401"
    by (simp_all add: retriable_status_def is_success_def resp401_def)
  then show ?thesis
    by (simp add: city_to_coords_def runtime_of_simps OpenWeatherClient_ok geocode_runtime_of
          finish_not_success)
qed

text \<open>The sibling tool turns every exception of its body into its error result.\<close>

lemma get_current_weather_catches:
  "current_weather_try rt lat lon units = Inl e \<Longrightarrow>
   get_current_weather rt lat lon units = current_weather_except rt e"
  by (simp add: get_current_weather_def)

lemma current_weather_runtime_of:
  "\<not> retriable_status r \<Longrightarrow>
   outcome (fst (current_weather
      \<lparr>api_key = ''k'', base_url = ''https://api.openweathermap.org'', max_retries = 3,
          backoff_factor = 1 / 2\<rparr> (\<lambda>s. None) (\<lambda>k path q. Inr r) lat lon units lang [])) = finish r"
  by (rule current_weather_constant_net) simp_all

lemma keys_except:
  "keys (current_weather_except rt e) =
     [''error'', ''temp'', ''feels_like'', ''condition'', ''description'', ''wind_speed'',
      ''humidity'', ''clouds'']"
  by (simp add: current_weather_except_def keys_def)

lemma keys_try:
  "current_weather_try rt lat lon units = Inr d \<Longrightarrow>
   keys d = [''temp'', ''temp_unit'', ''feels_like'', ''condition'', ''description'',
             ''wind_speed'', ''wind_unit'', ''wind_deg'', ''humidity'', ''clouds'', ''pressure'',
             ''visibility'']"
  unfolding current_weather_try_def
  by (auto simp: bind_exn_def keys_def split: sum.splits)

text \<open>
  Claim C5. The keys of the error result of \<^verbatim>\<open>get_current_weather\<close>, beside
  \<open>error\<close>, are seven of the twelve keys of its success result: \<open>temp_unit\<close>,
  \<open>wind_unit\<close>, \<open>wind_deg\<close>, \<open>pressure\<close> and \<open>visibility\<close> are missing.
\<close>

theorem current_weather_error_shape:
  "keys (get_current_weather (runtime_of resp401) 0 0 ''metric'') =
     [''error'', ''temp'', ''feels_like'', ''condition'', ''description'', ''wind_speed'',
      ''humidity'', ''clouds'']
 \<and> keys (get_current_weather (runtime_of (ok weather_json)) 0 0 ''metric'') =
     [''temp'', ''temp_unit'', ''feels_like'', ''condition'', ''description'',
      ''wind_speed'', ''wind_unit'', ''wind_deg'', ''humidity'', ''clouds'', ''pressure'',
      ''visibility'']"
proof
  have "\<not> retriable_status resp401" "\<not> is_success resp401"
    by (simp_all add: retriable_status_def is_success_def resp401_def)
  then have "current_weather_try (runtime_of resp401) 0 0 ''metric'' = Inl (HTTPStatusError resp401)"
    by (simp add: current_weather_try_def runtime_of_simps OpenWeatherClient_ok
          current_weather_runtime_of finish_not_success)
  then show "keys (get_current_weather (runtime_of resp401) 0 0 ''metric'') =
     [''error'', ''temp'', ''feels_like'', ''condition'', ''description'', ''wind_speed'',
      ''humidity'', ''clouds'']"
    by (simp add: get_current_weather_def keys_except)
next
  have "\<exists>d. current_weather_try (runtime_of (ok weather_json)) 0 0 ''metric'' = Inr d"
    by (simp add: current_weather_try_def runtime_of_simps OpenWeatherClient_ok
          current_weather_runtime_of finish_ok not_retriable_ok weather_json_def dict_get_def)
  then obtain d where d: "current_weather_try (runtime_of (ok weather_json)) 0 0 ''metric'' = Inr d"
    by blast
  show "keys (get_current_weather (runtime_of (ok weather_json)) 0 0 ''metric'') =
     [''temp'', ''temp_unit'', ''feels_like'', ''condition'', ''description'',
      ''wind_speed'', ''wind_unit'', ''wind_deg'', ''humidity'', ''clouds'', ''pressure'',
      ''visibility'']"
    using keys_try[OF d] by (simp add: get_current_weather_def d)
qed

subsection \<open>The forecast tool\<close>

text \<open>
  The comprehension of a timeframe keeps, in the provider's order, the entries whose time
  passes the condition of the timeframe. For \<^verbatim>\<open>next_3_days\<close> and every timeframe
  other than \<^verbatim>\<open>tonight\<close>, \<^verbatim>\<open>tomorrow\<close> and \<^verbatim>\<open>weekend\<close> the condition is an
  upper bound alone: a time before now passes it.
\<close>

lemma in_window_default:
  "timeframe \<noteq> ''tonight'' \<Longrightarrow> timeframe \<noteq> ''tomorrow'' \<Longrightarrow> timeframe \<noteq> ''weekend'' \<Longrightarrow>
   in_window rt timeframe t = (t \<le> utcnow rt + 72 * hour_us)"
  by (simp add: in_window_def)

lemma in_window_before_now:
  "t \<le> utcnow rt \<Longrightarrow> in_window rt ''next_3_days'' t"
  by (simp add: in_window_def hour_us_def)

lemma select_filter:
  "list_all (readable rt) entries \<Longrightarrow>
   select keep rt entries = Inr (filter (\<lambda>e. keep (local_time rt e)) entries)"
proof (induction entries)
  case Nil
  then show ?case by simp
next
  case (Cons entry entries)
  from Cons.prems obtain t where t: "entry_time rt entry = Inr t"
    by (auto simp: readable_def split: sum.splits)
  have rest: "select keep rt entries = Inr (filter (\<lambda>e. keep (local_time rt e)) entries)"
    using Cons by simp
  show ?case
    by (simp add: t rest local_time_def)
qed

text \<open>Every exception of the body of the forecast tool becomes its error result.\<close>

lemma get_forecast_catches:
  "forecast_try rt lat lon timeframe units = Inl e \<Longrightarrow>
   get_forecast rt lat lon timeframe units = forecast_except rt timeframe e"
  by (simp add: get_forecast_def)

text \<open>
  The body never reaches the comprehension: it raises at the constructor of the client,
  when no key is configured, or at \<^verbatim>\<open>client.forecast_5day\<close>.
\<close>

lemma forecast_try_raises:
  "forecast_try rt lat lon timeframe units =
     Inl (case OpenWeatherClient (rt_settings rt) of
            Inl e \<Rightarrow> e
          | Inr c \<Rightarrow> AttributeError ''forecast_5day'')"
  by (simp add: forecast_try_def forecast_5day_def bind_exn_def split: sum.splits)

lemma get_forecast_entries:
  "map_of (get_forecast rt lat lon timeframe units) ''entries'' = Some (JArr []) \<and>
   map_of (get_forecast rt lat lon timeframe units) ''count'' = Some (JInt 0)"
  by (simp add: get_forecast_def forecast_try_raises forecast_except_def)

text \<open>
  Claim C9. A forecast call for \<^verbatim>\<open>next_3_days\<close>, on a host with a configured key and
  whatever the network would answer, makes no request: \<^verbatim>\<open>client.forecast_5day\<close> raises
  \<^verbatim>\<open>AttributeError\<close>, and the tool returns its error result, with no entry and a count
  of zero, instead of the entries within 72 hours of now.
\<close>

theorem get_forecast_next_3_days:
  "get_forecast (runtime_of resp) (4885 / 100) (235 / 100) ''next_3_days'' ''metric'' =
     [(''error'', JStr (''Failed to fetch forecast data: '' @
                         exc_str (runtime_of resp) (AttributeError ''forecast_5day''))),
      (''timeframe'', JStr ''next_3_days''),
      (''entries'', JArr []),
      (''count'', JInt 0)]"
  by (simp add: get_forecast_def forecast_try_raises forecast_except_def runtime_of_simps
        OpenWeatherClient_ok)

subsection \<open>The loop of the agent\<close>

lemma run_tool_calls_unknown:
  "tool_map ag (call_name tc) = None \<Longrightarrow>
   run_tool_calls ag (pre @ tc # post) st = run_tool_calls ag (pre @ post) st"
proof (induction pre arbitrary: st)
  case Nil
  then show ?case by simp
next
  case (Cons a pre)
  then show ?case by (simp split: option.splits prod.splits sum.splits)
qed

lemma tool_result_ids_append:
  "tool_result_ids (xs @ ys) = tool_result_ids xs @ tool_result_ids ys"
  by (induction xs rule: tool_result_ids.induct) simp_all

lemma tool_result_ids_erase: "tool_result_ids (map erase xs) = tool_result_ids xs"
  by (induction xs rule: tool_result_ids.induct) simp_all

lemma tool_result_ids_answers: "tool_result_ids (answers tcs) = map call_id tcs"
  by (induction tcs) simp_all

lemma run_tool_calls_frame:
  "run_tool_calls ag tcs st = Inr st' \<Longrightarrow>
   queries st' = queries st \<and> responses st' = responses st \<and>
   input_Tokens st' = input_Tokens st \<and> output_Tokens st' = output_Tokens st \<and>
   total_Tokens st' = total_Tokens st"
proof (induction tcs arbitrary: st)
  case Nil
  then show ?case by simp
next
  case (Cons tc tcs)
  show ?case
  proof (cases "tool_map ag (call_name tc)")
    case None
    then show ?thesis using Cons by simp
  next
    case (Some tool)
    obtain r w where t: "tool (world st) (call_args tc) = (r, w)" by (cases "tool (world st) (call_args tc)")
    show ?thesis
    proof (cases r)
      case (Inl e)
      then show ?thesis using Cons.prems Some t by simp
    next
      case (Inr result)
      then show ?thesis using Cons.prems Some t Cons.IH by fastforce
    qed
  qed
qed

lemma run_tool_calls_frame_raise:
  "run_tool_calls ag tcs st = Inl (e, st') \<Longrightarrow>
   queries st' = queries st \<and> responses st' = responses st"
proof (induction tcs arbitrary: st)
  case Nil
  then show ?case by simp
next
  case (Cons tc tcs)
  show ?case
  proof (cases "tool_map ag (call_name tc)")
    case None
    then show ?thesis using Cons by simp
  next
    case (Some tool)
    obtain r w where t: "tool (world st) (call_args tc) = (r, w)" by (cases "tool (world st) (call_args tc)")
    show ?thesis
    proof (cases r)
      case (Inl e)
      then show ?thesis using Cons.prems Some t by auto
    next
      case (Inr result)
      then show ?thesis using Cons.prems Some t Cons.IH by fastforce
    qed
  qed
qed

lemma run_tool_calls_messages:
  "run_tool_calls ag tcs st = Inr st' \<Longrightarrow>
   \<exists>extra. messages st' = messages st @ extra \<and>
           map erase extra = answers (filter (registered ag) tcs)"
proof (induction tcs arbitrary: st)
  case Nil
  then show ?case by simp
next
  case (Cons tc tcs)
  show ?case
  proof (cases "tool_map ag (call_name tc)")
    case None
    then show ?thesis using Cons by (simp add: registered_def)
  next
    case (Some tool)
    obtain r w where t: "tool (world st) (call_args tc) = (r, w)" by (cases "tool (world st) (call_args tc)")
    show ?thesis
    proof (cases r)
      case (Inl e)
      then show ?thesis using Cons.prems Some t by simp
    next
      case (Inr result)
      define st1 where "st1 = st\<lparr>world := w,
                     invoked := invoked st @ [(call_name tc, call_args tc)],
                     messages := messages st @
                       [SystemMessage (get_tool_prompt (call_name tc)),
                        ToolMessage (str_result ag result) (call_id tc)]\<rparr>"
      have "run_tool_calls ag tcs st1 = Inr st'"
        using Cons.prems Some t Inr by (simp add: st1_def)
      from Cons.IH[OF this] obtain extra where
        e: "messages st' = messages st1 @ extra"
           "map erase extra = answers (filter (registered ag) tcs)" by blast
      have "messages st' = messages st @
              ([SystemMessage (get_tool_prompt (call_name tc)),
                ToolMessage (str_result ag result) (call_id tc)] @ extra)"
        using e(1) by (simp add: st1_def)
      moreover have "map erase ([SystemMessage (get_tool_prompt (call_name tc)),
                ToolMessage (str_result ag result) (call_id tc)] @ extra) =
              answers (filter (registered ag) (tc # tcs))"
        using e(2) Some by (simp add: registered_def)
      ultimately show ?thesis by blast
    qed
  qed
qed


lemma run_tool_calls_none_registered:
  "\<not> list_ex (registered ag) tcs \<Longrightarrow> run_tool_calls ag tcs st = Inr st"
  by (induction tcs) (auto simp: registered_def split: option.splits)

lemma invoke_loop_continue:
  "llm_with_tools ag (world st) (messages st) = (Inr response, w) \<Longrightarrow>
   usage_metadata response = Some u \<Longrightarrow> tool_calls response \<noteq> [] \<Longrightarrow>
   run_tool_calls ag (tool_calls response) (after_query ag message st response u w) = Inr st2 \<Longrightarrow>
   invoke_loop (Suc n) ag message st = invoke_loop n ag message st2"
  by (simp add: Let_def)

lemma invoke_loop_final:
  "llm_with_tools ag (world st) (messages st) = (Inr response, w) \<Longrightarrow>
   usage_metadata response = Some u \<Longrightarrow> tool_calls response = [] \<Longrightarrow>
   invoke_loop (Suc n) ag message st =
     Some \<lparr>returned = Inr response,
           printed_usage = Some (tally (after_query ag message st response u w)),
           final = after_query ag message st response u w\<rparr>"
  by (simp add: Let_def)

lemma tally_after_query:
  "tally st = total_usage (responses st) \<Longrightarrow> usage_metadata response = Some u \<Longrightarrow>
   tally (after_query ag message st response u w) = total_usage (responses st @ [response])"
  by (simp add: tally_def total_usage_def after_query_def usage_of_def)

lemma tally_frame:
  "run_tool_calls ag tcs st = Inr st' \<Longrightarrow> tally st' = tally st \<and> responses st' = responses st"
  using run_tool_calls_frame[of ag tcs st st'] by (simp add: tally_def)

lemma invoke_loop_returns:
  "invoke_loop n ag message st = Some res \<Longrightarrow> returned res = Inr r \<Longrightarrow>
   tally st = total_usage (responses st) \<Longrightarrow>
   printed_usage res = Some (total_usage (responses (final res))) \<and>
   responses (final res) \<noteq> [] \<and> last (responses (final res)) = r \<and> tool_calls r = []"
proof (induction n arbitrary: st)
  case 0
  then show ?case by simp
next
  case (Suc n)
  obtain o' w where q: "llm_with_tools ag (world st) (messages st) = (o', w)"
    by (cases "llm_with_tools ag (world st) (messages st)")
  show ?case
  proof (cases o')
    case (Inl e)
    then show ?thesis using Suc.prems q by auto
  next
    case (Inr response)
    show ?thesis
    proof (cases "usage_metadata response")
      case None
      then show ?thesis using Suc.prems q Inr by auto
    next
      case (Some u)
      define st1 where "st1 = after_query ag message st response u w"
      have t1: "tally st1 = total_usage (responses st @ [response])"
        unfolding st1_def using Suc.prems(3) Some by (rule tally_after_query)
      have r1: "responses st1 = responses st @ [response]"
        by (simp add: st1_def after_query_def)
      show ?thesis
      proof (cases "tool_calls response = []")
        case True
        have "res = \<lparr>returned = Inr response, printed_usage = Some (tally st1), final = st1\<rparr>"
          using Suc.prems(1) q Inr Some True by (simp add: st1_def Let_def)
        then show ?thesis using Suc.prems(2) t1 r1 True by auto
      next
        case False
        show ?thesis
        proof (cases "run_tool_calls ag (tool_calls response) st1")
          case (Inl a)
          then show ?thesis using Suc.prems(1,2) q Inr Some False
            by (cases a) (auto simp: st1_def Let_def)
        next
          case st2: (Inr st2)
          have c: "invoke_loop n ag message st2 = Some res"
            using Suc.prems(1) q Inr Some False st2 by (simp add: st1_def Let_def)
          have "tally st2 = total_usage (responses st2)"
            using tally_frame[OF st2] t1 r1 by simp
          from Suc.IH[OF c Suc.prems(2) this] show ?thesis .
        qed
      qed
    qed
  qed
qed

lemma tally_initial: "tally (initial_state ag message w) = total_usage (responses (initial_state ag message w))"
  by (simp add: tally_def total_usage_def initial_state_def)

lemma invoke_loop_queries:
  "invoke_loop (Suc m) ag message st = Some res \<Longrightarrow>
   \<exists>rest. queries (final res) = queries st @ messages st # rest"
proof (induction m arbitrary: st)
  case 0
  obtain o' w where q: "llm_with_tools ag (world st) (messages st) = (o', w)"
    by (cases "llm_with_tools ag (world st) (messages st)")
  show ?case
  proof (cases o')
    case (Inl e)
    then show ?thesis using 0 q by auto
  next
    case (Inr response)
    show ?thesis
    proof (cases "usage_metadata response")
      case None
      then show ?thesis using 0 q Inr by auto
    next
      case (Some u)
      define st1 where "st1 = after_query ag message st response u w"
      have q1: "queries st1 = queries st @ [messages st]"
        by (simp add: st1_def after_query_def)
      show ?thesis
      proof (cases "tool_calls response = []")
        case True
        then show ?thesis using 0 q Inr Some q1 by (auto simp: st1_def Let_def)
      next
        case False
        show ?thesis
        proof (cases "run_tool_calls ag (tool_calls response) st1")
          case (Inl a)
          obtain e st2 where a: "a = (e, st2)" by (cases a)
          have "final res = st2" using 0 q Inr Some False Inl a by (auto simp: st1_def Let_def)
          then show ?thesis using run_tool_calls_frame_raise[OF Inl[unfolded a]] q1 by simp
        next
          case st2: (Inr st2)
          then show ?thesis using 0 q Inr Some False by (simp add: st1_def Let_def)
        qed
      qed
    qed
  qed
next
  case (Suc m)
  obtain o' w where q: "llm_with_tools ag (world st) (messages st) = (o', w)"
    by (cases "llm_with_tools ag (world st) (messages st)")
  show ?case
  proof (cases o')
    case (Inl e)
    then show ?thesis using Suc.prems q by auto
  next
    case (Inr response)
    show ?thesis
    proof (cases "usage_metadata response")
      case None
      then show ?thesis using Suc.prems q Inr by auto
    next
      case (Some u)
      define st1 where "st1 = after_query ag message st response u w"
      have q1: "queries st1 = queries st @ [messages st]"
        by (simp add: st1_def after_query_def)
      show ?thesis
      proof (cases "tool_calls response = []")
        case True
        then show ?thesis using Suc.prems q Inr Some q1 by (auto simp: st1_def Let_def)
      next
        case False
        show ?thesis
        proof (cases "run_tool_calls ag (tool_calls response) st1")
          case (Inl a)
          obtain e st2 where a: "a = (e, st2)" by (cases a)
          have "final res = st2" using Suc.prems q Inr Some False Inl a by (auto simp: st1_def Let_def)
          then show ?thesis using run_tool_calls_frame_raise[OF Inl[unfolded a]] q1 by simp
        next
          case st2: (Inr st2)
          have c: "invoke_loop (Suc m) ag message st2 = Some res"
            using Suc.prems q Inr Some False st2 by (simp add: st1_def Let_def)
          from Suc.IH[OF c] obtain rest where "queries (final res) = queries st2 @ messages st2 # rest"
            by blast
          then show ?thesis using run_tool_calls_frame[OF st2] q1 by simp
        qed
      qed
    qed
  qed
qed

subsection \<open>A tool the map does not have\<close>

text \<open>
  Claim C1, as the code has it. A tool call whose name the tool map does not have is
  passed by: the calls before and after it are executed as if it were not there, nothing
  is recorded for it, and neither the turn nor the loop is aborted. When no call of a
  response is registered, the next query is made with the system prompt, the user's
  message and the response alone.
\<close>

theorem unknown_tool_skipped:
  "(tool_map ag (call_name tc) = None \<longrightarrow>
      run_tool_calls ag (pre @ tc # post) st = run_tool_calls ag (pre @ post) st)
 \<and> (llm_with_tools ag (world st) (messages st) = (Inr response, w) \<and>
     usage_metadata response = Some u \<and> tool_calls response \<noteq> [] \<and>
     \<not> list_ex (registered ag) (tool_calls response) \<longrightarrow>
      invoke_loop (Suc n) ag message st =
        invoke_loop n ag message (after_query ag message st response u w) \<and>
      messages (after_query ag message st response u w) =
        [SystemMessage (system_prompt ag), HumanMessage message, AIMessage response])"
proof (intro conjI impI)
  assume "tool_map ag (call_name tc) = None"
  then show "run_tool_calls ag (pre @ tc # post) st = run_tool_calls ag (pre @ post) st"
    by (rule run_tool_calls_unknown)
next
  assume h: "llm_with_tools ag (world st) (messages st) = (Inr response, w) \<and>
     usage_metadata response = Some u \<and> tool_calls response \<noteq> [] \<and>
     \<not> list_ex (registered ag) (tool_calls response)"
  then have "run_tool_calls ag (tool_calls response) (after_query ag message st response u w) =
               Inr (after_query ag message st response u w)"
    by (simp add: run_tool_calls_none_registered)
  with h show "invoke_loop (Suc n) ag message st =
        invoke_loop n ag message (after_query ag message st response u w)"
    by (intro invoke_loop_continue) simp_all
next
  show "messages (after_query ag message st response u w) =
        [SystemMessage (system_prompt ag), HumanMessage message, AIMessage response]"
    by (simp add: after_query_def)
qed

lemma example_agent_simps:
  "llm_with_tools (example_agent tcs) = scripted (ask tcs)"
  "tool_map (example_agent tcs) ''get_forecast'' = None"
  "tool_map (example_agent tcs) ''city_to_coords'' = Some stub_tool"
  "str_result (example_agent tcs) = (\<lambda>d. ''result'')"
  by (simp_all add: example_agent_def WeatherAgent_def)

lemma registered_example:
  "\<not> registered (example_agent tcs) call_unknown"
  "registered (example_agent tcs) call_known"
  by (simp_all add: registered_def call_unknown_def call_known_def example_agent_simps)

lemma ask_simps:
  "tool_calls (ask tcs) = tcs"
  "usage_metadata (ask tcs) = Some \<lparr>input_tokens = 10, output_tokens = 5, total_tokens = 15\<rparr>"
  "tool_calls answer = []"
  "usage_metadata answer = Some \<lparr>input_tokens = 20, output_tokens = 7, total_tokens = 27\<rparr>"
  by (simp_all add: ask_def answer_def)

lemma world_initial [simp]:
  "world (initial_state ag message w) = w"
  "messages (initial_state ag message w) = [SystemMessage (system_prompt ag), HumanMessage message]"
  "queries (initial_state ag message w) = []"
  "invoked (initial_state ag message w) = []"
  by (simp_all add: initial_state_def)

theorem unknown_tool_skipped_witness:
  "run_tool_calls (example_agent []) [call_known, call_unknown, call_known]
     (initial_state (example_agent []) ''hello'' 0) =
   run_tool_calls (example_agent []) [call_known, call_known]
     (initial_state (example_agent []) ''hello'' 0)
 \<and> invoke_loop (Suc 0) (example_agent [call_unknown]) ''hello''
       (initial_state (example_agent [call_unknown]) ''hello'' 0) =
     invoke_loop 0 (example_agent [call_unknown]) ''hello''
       (after_query (example_agent [call_unknown]) ''hello''
          (initial_state (example_agent [call_unknown]) ''hello'' 0) (ask [call_unknown])
          \<lparr>input_tokens = 10, output_tokens = 5, total_tokens = 15\<rparr> (Suc 0))"
  using unknown_tool_skipped[where ag = "example_agent []" and tc = call_unknown
          and pre = "[call_known]" and post = "[call_known]"
          and st = "initial_state (example_agent []) ''hello'' 0"]
        unknown_tool_skipped[where ag = "example_agent [call_unknown]"
          and st = "initial_state (example_agent [call_unknown]) ''hello'' 0"
          and response = "ask [call_unknown]" and w = "Suc 0"
          and u = "\<lparr>input_tokens = 10, output_tokens = 5, total_tokens = 15\<rparr>"
          and n = 0 and message = "''hello''"]
  by (simp add: example_agent_simps registered_example ask_simps scripted_def
        call_unknown_def[THEN arg_cong, of call_name] del: invoke_loop.simps run_tool_calls.simps)

text \<open>
  Claim C1 as stated fails: after the calls of a response that asks for
  \<^verbatim>\<open>get_forecast\<close>, which the map does not have, the conversation holds no tool
  result.
\<close>

theorem unknown_tool_no_result:
  "run_tool_calls (example_agent [call_unknown]) [call_unknown]
     (initial_state (example_agent [call_unknown]) ''Forecast for Paris?'' 0) =
   Inr (initial_state (example_agent [call_unknown]) ''Forecast for Paris?'' 0)
 \<and> tool_result_ids (messages (initial_state (example_agent [call_unknown]) ''Forecast for Paris?'' 0)) = []"
  by (simp add: example_agent_simps call_unknown_def)

subsection \<open>The conversation of the next query\<close>

lemma filter_all: "list_all P xs \<Longrightarrow> filter P xs = xs"
  by (induction xs) simp_all

text \<open>
  Claim C2, as the code has it. In an iteration whose response carries tool calls, all of
  whose executed tools return, the conversation passed to the next model query is the
  system message, the user's message and the response, followed, for each call whose name
  the tool map has, in emission order, by a guidance message and one tool result with the
  id of the call; a call whose name the map does not have gets no message. When every call
  is registered, there are as many tool results as calls and their ids match in order.
\<close>

theorem rebuilt_conversation:
  "llm_with_tools ag (world st) (messages st) = (Inr response, w) \<and>
   usage_metadata response = Some u \<and> tool_calls response \<noteq> [] \<and>
   run_tool_calls ag (tool_calls response) (after_query ag message st response u w) = Inr st'
   \<longrightarrow>
   invoke_loop (Suc n) ag message st = invoke_loop n ag message st'
   \<and> take 3 (messages st') =
       [SystemMessage (system_prompt ag), HumanMessage message, AIMessage response]
   \<and> map erase (drop 3 (messages st')) = answers (filter (registered ag) (tool_calls response))
   \<and> tool_result_ids (messages st') = map call_id (filter (registered ag) (tool_calls response))
   \<and> (list_all (registered ag) (tool_calls response) \<longrightarrow>
        map erase (drop 3 (messages st')) = answers (tool_calls response) \<and>
        tool_result_ids (messages st') = map call_id (tool_calls response) \<and>
        length (tool_result_ids (messages st')) = length (tool_calls response))
   \<and> (\<forall>res. invoke_loop (Suc m) ag message st' = Some res \<longrightarrow>
        (\<exists>rest. queries (final res) = queries st @ messages st # messages st' # rest))"
proof (intro impI)
  assume h: "llm_with_tools ag (world st) (messages st) = (Inr response, w) \<and>
   usage_metadata response = Some u \<and> tool_calls response \<noteq> [] \<and>
   run_tool_calls ag (tool_calls response) (after_query ag message st response u w) = Inr st'"
  define st1 where "st1 = after_query ag message st response u w"
  have run: "run_tool_calls ag (tool_calls response) st1 = Inr st'"
    using h by (simp add: st1_def)
  have m1: "messages st1 = [SystemMessage (system_prompt ag), HumanMessage message, AIMessage response]"
    and q1: "queries st1 = queries st @ [messages st]"
    by (simp_all add: st1_def after_query_def)
  from run_tool_calls_messages[OF run] obtain extra where
    e: "messages st' = messages st1 @ extra"
       "map erase extra = answers (filter (registered ag) (tool_calls response))"
    by blast
  have c1: "invoke_loop (Suc n) ag message st = invoke_loop n ag message st'"
    using h invoke_loop_continue[of ag st response w u message st' n] by blast
  have c2: "take 3 (messages st') =
       [SystemMessage (system_prompt ag), HumanMessage message, AIMessage response]"
    by (simp add: e(1) m1)
  have d: "drop 3 (messages st') = extra"
    by (simp add: e(1) m1)
  have c3: "map erase (drop 3 (messages st')) = answers (filter (registered ag) (tool_calls response))"
    by (simp add: d e(2))
  have "tool_result_ids (messages st') = tool_result_ids (map erase extra)"
    by (simp add: e(1) m1 tool_result_ids_erase)
  then have c4: "tool_result_ids (messages st') =
                   map call_id (filter (registered ag) (tool_calls response))"
    by (simp add: e(2) tool_result_ids_answers)
  have c5: "list_all (registered ag) (tool_calls response) \<longrightarrow>
        map erase (drop 3 (messages st')) = answers (tool_calls response) \<and>
        tool_result_ids (messages st') = map call_id (tool_calls response) \<and>
        length (tool_result_ids (messages st')) = length (tool_calls response)"
    using c3 c4 by (simp add: filter_all)
  have c6: "\<forall>res. invoke_loop (Suc m) ag message st' = Some res \<longrightarrow>
        (\<exists>rest. queries (final res) = queries st @ messages st # messages st' # rest)"
  proof (intro allI impI)
    fix res assume "invoke_loop (Suc m) ag message st' = Some res"
    from invoke_loop_queries[OF this] obtain rest where
      "queries (final res) = queries st' @ messages st' # rest" by blast
    then have "queries (final res) = queries st @ messages st # messages st' # rest"
      using run_tool_calls_frame[OF run] q1 by simp
    then show "\<exists>rest. queries (final res) = queries st @ messages st # messages st' # rest"
      by blast
  qed
  show "invoke_loop (Suc n) ag message st = invoke_loop n ag message st'
   \<and> take 3 (messages st') =
       [SystemMessage (system_prompt ag), HumanMessage message, AIMessage response]
   \<and> map erase (drop 3 (messages st')) = answers (filter (registered ag) (tool_calls response))
   \<and> tool_result_ids (messages st') = map call_id (filter (registered ag) (tool_calls response))
   \<and> (list_all (registered ag) (tool_calls response) \<longrightarrow>
        map erase (drop 3 (messages st')) = answers (tool_calls response) \<and>
        tool_result_ids (messages st') = map call_id (tool_calls response) \<and>
        length (tool_result_ids (messages st')) = length (tool_calls response))
   \<and> (\<forall>res. invoke_loop (Suc m) ag message st' = Some res \<longrightarrow>
        (\<exists>rest. queries (final res) = queries st @ messages st # messages st' # rest))"
    using c1 c2 c3 c4 c5 c6 by blast
qed


lemma run_known:
  "run_tool_calls (example_agent [call_known]) [call_known]
     (after_query (example_agent [call_known]) ''hello''
        (initial_state (example_agent [call_known]) ''hello'' 0) (ask [call_known])
        \<lparr>input_tokens = 10, output_tokens = 5, total_tokens = 15\<rparr> (Suc 0)) = Inr after_known"
  by (simp add: example_agent_simps call_known_def stub_tool_def after_query_def
        initial_state_def after_known_def)

theorem rebuilt_conversation_witness:
  "invoke_loop (Suc (Suc 0)) (example_agent [call_known]) ''hello''
     (initial_state (example_agent [call_known]) ''hello'' 0) =
   invoke_loop (Suc 0) (example_agent [call_known]) ''hello'' after_known
 \<and> take 3 (messages after_known) =
     [SystemMessage (system_prompt (example_agent [call_known])), HumanMessage ''hello'',
      AIMessage (ask [call_known])]
 \<and> map erase (drop 3 (messages after_known)) = answers [call_known]
 \<and> tool_result_ids (messages after_known) = [''call_1'']
 \<and> length (tool_result_ids (messages after_known)) = length (tool_calls (ask [call_known]))"
  using rebuilt_conversation[where ag = "example_agent [call_known]"
          and st = "initial_state (example_agent [call_known]) ''hello'' 0"
          and response = "ask [call_known]" and w = "Suc 0"
          and u = "\<lparr>input_tokens = 10, output_tokens = 5, total_tokens = 15\<rparr>"
          and message = "''hello''" and st' = after_known and n = "Suc 0" and m = 0]
  by (simp add: run_known example_agent_simps ask_simps scripted_def registered_example
        call_known_def[THEN arg_cong, of call_id]
        del: invoke_loop.simps run_tool_calls.simps)

text \<open>
  Claim C2 as stated fails: the model asks for \<^verbatim>\<open>get_forecast\<close>, and the second
  query is made with the system message, the user's message and the response alone, no
  tool result for the one call of the response.
\<close>

theorem unanswered_tool_call:
  "map_option (queries \<circ> final)
     (invoke (Suc (Suc 0)) (example_agent [call_unknown]) ''Forecast for Paris?'' 0) =
   Some [[SystemMessage (system_prompt (example_agent [call_unknown])),
          HumanMessage ''Forecast for Paris?''],
         [SystemMessage (system_prompt (example_agent [call_unknown])),
          HumanMessage ''Forecast for Paris?'', AIMessage (ask [call_unknown])]]
 \<and> tool_calls (ask [call_unknown]) = [call_unknown]
 \<and> tool_result_ids
       [SystemMessage (system_prompt (example_agent [call_unknown])),
        HumanMessage ''Forecast for Paris?'', AIMessage (ask [call_unknown])] = []"
  by (simp add: invoke_def initial_state_def example_agent_simps ask_simps scripted_def
        call_unknown_def after_query_def tally_def Let_def)

subsection \<open>The final answer\<close>

text \<open>
  Claim C4, as the code has it. When a response carries no tool calls the loop ends at
  that query, with any fuel left or none: no tool is executed after the query, the response
  itself is returned, and the tally printed is the usage of all the responses of the
  invocation, summed. When the first response carries no tool calls, no tool has been
  executed at all. The tally is printed, and is not part of what is returned.
\<close>

theorem final_answer:
  "(llm_with_tools ag (world st) (messages st) = (Inr response, w) \<and>
    usage_metadata response = Some u \<and> tool_calls response = [] \<longrightarrow>
      invoke_loop (Suc n) ag message st =
        Some \<lparr>returned = Inr response,
              printed_usage = Some (tally (after_query ag message st response u w)),
              final = after_query ag message st response u w\<rparr> \<and>
      invoked (after_query ag message st response u w) = invoked st)
 \<and> (llm_with_tools ag w0 [SystemMessage (system_prompt ag), HumanMessage message] = (Inr response, w) \<and>
    usage_metadata response = Some u \<and> tool_calls response = [] \<longrightarrow>
      map_option returned (invoke (Suc n) ag message w0) = Some (Inr response) \<and>
      map_option printed_usage (invoke (Suc n) ag message w0) = Some (Some u) \<and>
      map_option (invoked \<circ> final) (invoke (Suc n) ag message w0) = Some [])
 \<and> (invoke fuel ag message w0 = Some res \<and> returned res = Inr r \<longrightarrow>
      printed_usage res = Some (total_usage (responses (final res))) \<and>
      responses (final res) \<noteq> [] \<and> last (responses (final res)) = r \<and> tool_calls r = [])"
proof (intro conjI impI)
  assume h: "llm_with_tools ag (world st) (messages st) = (Inr response, w) \<and>
    usage_metadata response = Some u \<and> tool_calls response = []"
  then show "invoke_loop (Suc n) ag message st =
        Some \<lparr>returned = Inr response,
              printed_usage = Some (tally (after_query ag message st response u w)),
              final = after_query ag message st response u w\<rparr>"
    using invoke_loop_final[of ag st response w u n message] by blast
  show "invoked (after_query ag message st response u w) = invoked st"
    by (simp add: after_query_def)
next
  assume h: "llm_with_tools ag w0 [SystemMessage (system_prompt ag), HumanMessage message] = (Inr response, w) \<and>
    usage_metadata response = Some u \<and> tool_calls response = []"
  have i: "invoke (Suc n) ag message w0 =
        Some \<lparr>returned = Inr response,
              printed_usage = Some (tally (after_query ag message (initial_state ag message w0) response u w)),
              final = after_query ag message (initial_state ag message w0) response u w\<rparr>"
    unfolding invoke_def
    using h invoke_loop_final[of ag "initial_state ag message w0" response w u n message]
    by simp
  show "map_option returned (invoke (Suc n) ag message w0) = Some (Inr response)"
    by (simp add: i)
  show "map_option printed_usage (invoke (Suc n) ag message w0) = Some (Some u)"
    by (simp add: i tally_def after_query_def initial_state_def)
  show "map_option (invoked \<circ> final) (invoke (Suc n) ag message w0) = Some []"
    by (simp add: i after_query_def)
next
  assume h: "invoke fuel ag message w0 = Some res \<and> returned res = Inr r"
  then have "invoke_loop fuel ag message (initial_state ag message w0) = Some res"
    and "returned res = Inr r"
    by (simp_all add: invoke_def)
  from invoke_loop_returns[OF this tally_initial]
  show "printed_usage res = Some (total_usage (responses (final res)))"
    and "responses (final res) \<noteq> []" and "last (responses (final res)) = r"
    and "tool_calls r = []"
    by simp_all
qed

lemma invoke_example:
  "invoke (Suc (Suc 0)) (example_agent [call_known]) ''hello'' 0 =
     Some \<lparr>returned = Inr answer,
           printed_usage = Some \<lparr>input_tokens = 30, output_tokens = 12, total_tokens = 42\<rparr>,
           final = after_query (example_agent [call_known]) ''hello'' after_known answer
                     \<lparr>input_tokens = 20, output_tokens = 7, total_tokens = 27\<rparr> (Suc (Suc 0))\<rparr>"
proof -
  have "invoke (Suc (Suc 0)) (example_agent [call_known]) ''hello'' 0 =
          invoke_loop (Suc 0) (example_agent [call_known]) ''hello'' after_known"
    unfolding invoke_def
    using run_known
    by (intro invoke_loop_continue[where response = "ask [call_known]" and w = "Suc 0"
          and u = "\<lparr>input_tokens = 10, output_tokens = 5, total_tokens = 15\<rparr>"])
       (simp_all add: example_agent_simps scripted_def ask_simps)
  also have "\<dots> = Some \<lparr>returned = Inr answer,
           printed_usage = Some (tally (after_query (example_agent [call_known]) ''hello'' after_known answer
                     \<lparr>input_tokens = 20, output_tokens = 7, total_tokens = 27\<rparr> (Suc (Suc 0)))),
           final = after_query (example_agent [call_known]) ''hello'' after_known answer
                     \<lparr>input_tokens = 20, output_tokens = 7, total_tokens = 27\<rparr> (Suc (Suc 0))\<rparr>"
    by (intro invoke_loop_final[where response = answer and w = "Suc (Suc 0)"])
       (simp_all add: example_agent_simps scripted_def ask_simps after_known_def)
  finally show ?thesis
    by (simp add: tally_def after_query_def after_known_def)
qed

theorem final_answer_witness:
  "map_option printed_usage (invoke (Suc (Suc 0)) (example_agent [call_known]) ''hello'' 0) =
     Some (Some (total_usage [ask [call_known], answer]))
 \<and> map_option returned (invoke (Suc 0) (example_agent []) ''hello'' 0) = Some (Inr (ask []))
 \<and> map_option (invoked \<circ> final) (invoke (Suc 0) (example_agent []) ''hello'' 0) = Some []
 \<and> map_option returned (invoke_loop (Suc 0) (example_agent [call_known]) ''hello'' after_known) =
     Some (Inr answer)"
proof -
  define u2 where "u2 = \<lparr>input_tokens = 20, output_tokens = 7, total_tokens = 27\<rparr>"
  define res where "res =
     \<lparr>returned = Inr answer,
      printed_usage = Some \<lparr>input_tokens = 30, output_tokens = 12, total_tokens = 42\<rparr>,
      final = after_query (example_agent [call_known]) ''hello'' after_known answer u2
                (Suc (Suc 0))\<rparr>"
  note F = final_answer[where ag = "example_agent [call_known]" and st = after_known
          and response = answer and w = "Suc (Suc 0)" and u = u2 and n = 0
          and message = "''hello''" and fuel = "Suc (Suc 0)" and w0 = 0 and r = answer
          and res = res]
  note G = final_answer[where ag = "example_agent []" and response = "ask []" and w = "Suc 0"
          and u = "\<lparr>input_tokens = 10, output_tokens = 5, total_tokens = 15\<rparr>"
          and n = 0 and message = "''hello''" and w0 = 0]
  have a1: "llm_with_tools (example_agent [call_known]) (world after_known) (messages after_known) =
              (Inr answer, Suc (Suc 0)) \<and>
            usage_metadata answer = Some u2 \<and> tool_calls answer = []"
    by (simp add: example_agent_simps scripted_def ask_simps after_known_def u2_def)
  have a2: "llm_with_tools (example_agent []) 0
              [SystemMessage (system_prompt (example_agent [])), HumanMessage ''hello''] =
              (Inr (ask []), Suc 0) \<and>
            usage_metadata (ask []) = Some \<lparr>input_tokens = 10, output_tokens = 5, total_tokens = 15\<rparr> \<and>
            tool_calls (ask []) = []"
    by (simp add: example_agent_simps scripted_def ask_simps)
  have a3: "invoke (Suc (Suc 0)) (example_agent [call_known]) ''hello'' 0 = Some res \<and>
            returned res = Inr answer"
    by (simp add: invoke_example res_def u2_def)
  have b1: "invoke_loop (Suc 0) (example_agent [call_known]) ''hello'' after_known =
        Some \<lparr>returned = Inr answer,
              printed_usage = Some (tally (after_query (example_agent [call_known]) ''hello''
                                             after_known answer u2 (Suc (Suc 0)))),
              final = after_query (example_agent [call_known]) ''hello'' after_known answer u2
                        (Suc (Suc 0))\<rparr>"
    using F[THEN conjunct1, THEN mp, OF a1] by blast
  have b2: "map_option returned (invoke (Suc 0) (example_agent []) ''hello'' 0) = Some (Inr (ask []))"
           "map_option (invoked \<circ> final) (invoke (Suc 0) (example_agent []) ''hello'' 0) = Some []"
    using G[THEN conjunct2, THEN conjunct1, THEN mp, OF a2] by blast+
  have b3: "printed_usage res = Some (total_usage (responses (final res)))"
    using F[THEN conjunct2, THEN conjunct2, THEN mp, OF a3] by blast
  have r: "responses (final res) = [ask [call_known], answer]"
    by (simp add: res_def after_query_def after_known_def)
  have c1: "map_option printed_usage (invoke (Suc (Suc 0)) (example_agent [call_known]) ''hello'' 0) =
     Some (Some (total_usage [ask [call_known], answer]))"
    using a3 b3 r by simp
  have c4: "map_option returned (invoke_loop (Suc 0) (example_agent [call_known]) ''hello'' after_known) =
     Some (Inr answer)"
    unfolding b1 by simp
  show ?thesis using c1 b2 c4 by blast
qed

text \<open>
  Claim C4 as stated fails: after two queries the invocation returns the last response,
  whose usage is that of the last query alone, while the tally of the invocation is only
  printed.
\<close>

theorem tally_not_returned:
  "map_option returned (invoke (Suc (Suc 0)) (example_agent [call_known]) ''hello'' 0) =
     Some (Inr answer)
 \<and> map_option printed_usage (invoke (Suc (Suc 0)) (example_agent [call_known]) ''hello'' 0) =
     Some (Some \<lparr>input_tokens = 30, output_tokens = 12, total_tokens = 42\<rparr>)
 \<and> usage_metadata answer = Some \<lparr>input_tokens = 20, output_tokens = 7, total_tokens = 27\<rparr>"
  by (simp add: invoke_example ask_simps)

end
